theory Spec2Isabelle
  imports Main "HOL-Library.Sublist"
begin

section \<open>Values of the Python runtime\<close>

text \<open>
  Two scripts are verified: the blocking client \<^verbatim>\<open>3dstatus/3dstatus.py\<close> (suffix
  \<open>_sync\<close> below) and the cooperative client \<^verbatim>\<open>deuterium/klippertest.py\<close> (suffix
  \<open>_async\<close>). Both define \<^verbatim>\<open>receive_response\<close> and \<^verbatim>\<open>get_printer_status\<close>, hence
  the suffixes.

  A \<^verbatim>\<open>bytes\<close> value is a list of 8-bit characters. A \<^verbatim>\<open>str\<close> is represented by its
  UTF-8 encoding, so \<^verbatim>\<open>.encode()\<close> is the identity and \<^verbatim>\<open>.decode()\<close> is the validity
  check \<open>utf8_valid\<close>: it raises \<^verbatim>\<open>UnicodeDecodeError\<close> on anything else. The
  framing character is below 128, so splitting and stripping on it commute with
  decoding.
\<close>

type_synonym bytes = string

definition ETX :: char where
  "ETX = CHR 0x03"

datatype pyfloat = Finite int int | Infinite bool | NaN

datatype json =
    JNull
  | JBool bool
  | JInt int
  | JFloat pyfloat
  | JStr string
  | JArr "json list"
  | JObj "(string \<times> json) list"

text \<open>
  The exceptions the two scripts can meet. \<open>SocketTimeout\<close> (\<^verbatim>\<open>socket.timeout\<close>) and
  \<open>OSError\<close> with its errno are the two kinds of \<^verbatim>\<open>socket.error\<close>.
\<close>

datatype exn =
    NameError
  | SocketTimeout
  | OSError nat
  | UnicodeDecodeError
  | JSONDecodeError
  | KeyError
  | TypeError
  | AttributeError
  | ValueError
  | IndexError
  | KeyboardInterrupt

datatype sock_error = Timeout | Errno nat

definition sock_exn :: "sock_error \<Rightarrow> exn" where
  "sock_exn e = (case e of Timeout \<Rightarrow> SocketTimeout | Errno n \<Rightarrow> OSError n)"

definition then_e :: "exn + 'a \<Rightarrow> ('a \<Rightarrow> exn + 'b) \<Rightarrow> exn + 'b" where
  "then_e m f = (case m of Inl e \<Rightarrow> Inl e | Inr x \<Rightarrow> f x)"

subsection \<open>UTF-8\<close>

definition byte :: "char \<Rightarrow> nat" where
  "byte c = of_char c"

definition cont :: "char \<Rightarrow> bool" where
  "cont c = (128 \<le> byte c \<and> byte c < 192)"

text \<open>Strict UTF-8, as \<^verbatim>\<open>bytes.decode()\<close> accepts it: no overlong form, no surrogate,
  nothing above U+10FFFF.\<close>

fun utf8_valid :: "bytes \<Rightarrow> bool" where
  "utf8_valid [] = True"
| "utf8_valid (c # cs) =
     (if byte c < 128 then utf8_valid cs
      else if 194 \<le> byte c \<and> byte c < 224 then
        (case cs of c1 # r \<Rightarrow> cont c1 \<and> utf8_valid r | _ \<Rightarrow> False)
      else if 224 \<le> byte c \<and> byte c < 240 then
        (case cs of c1 # c2 # r \<Rightarrow>
           cont c1 \<and> cont c2
           \<and> (byte c = 224 \<longrightarrow> 160 \<le> byte c1)
           \<and> (byte c = 237 \<longrightarrow> byte c1 < 160)
           \<and> utf8_valid r
         | _ \<Rightarrow> False)
      else if 240 \<le> byte c \<and> byte c < 245 then
        (case cs of c1 # c2 # c3 # r \<Rightarrow>
           cont c1 \<and> cont c2 \<and> cont c3
           \<and> (byte c = 240 \<longrightarrow> 144 \<le> byte c1)
           \<and> (byte c = 244 \<longrightarrow> byte c1 < 144)
           \<and> utf8_valid r
         | _ \<Rightarrow> False)
      else False)"

text \<open>The code points of a string, each as the string of its UTF-8 bytes: what
  iterating over a \<^verbatim>\<open>str\<close> or indexing it yields.\<close>

function utf8_chars :: "string \<Rightarrow> string list" where
  "utf8_chars [] = []"
| "utf8_chars (c # cs) = (c # takeWhile cont cs) # utf8_chars (dropWhile cont cs)"
  by pat_completeness auto
termination
  by (relation "measure length") (auto simp: length_dropWhile_le less_Suc_eq_le)

subsection \<open>Operations on decoded JSON\<close>

text \<open>\<^verbatim>\<open>key in data\<close>: key membership for a dict, element membership for a list,
  substring for a str, \<^verbatim>\<open>TypeError\<close> for anything else.\<close>

definition py_contains :: "string \<Rightarrow> json \<Rightarrow> exn + bool" where
  "py_contains k v =
     (case v of
        JObj kvs \<Rightarrow> Inr (k \<in> set (map fst kvs))
      | JArr xs \<Rightarrow> Inr (JStr k \<in> set xs)
      | JStr s \<Rightarrow> Inr (sublist k s)
      | _ \<Rightarrow> Inl TypeError)"

text \<open>\<^verbatim>\<open>v[k]\<close> with a string key: the value or \<^verbatim>\<open>KeyError\<close> for a dict,
  \<^verbatim>\<open>TypeError\<close> for anything else.\<close>

definition py_getitem :: "json \<Rightarrow> string \<Rightarrow> exn + json" where
  "py_getitem v k =
     (case v of
        JObj kvs \<Rightarrow> (case map_of kvs k of Some x \<Rightarrow> Inr x | None \<Rightarrow> Inl KeyError)
      | _ \<Rightarrow> Inl TypeError)"

text \<open>\<^verbatim>\<open>v[i]\<close> with a non-negative integer index. A dict decoded from JSON has
  string keys only, so an integer key is always missing.\<close>

definition py_index :: "json \<Rightarrow> nat \<Rightarrow> exn + json" where
  "py_index v i =
     (case v of
        JArr xs \<Rightarrow> (if i < length xs then Inr (xs ! i) else Inl IndexError)
      | JStr s \<Rightarrow>
          (if i < length (utf8_chars s) then Inr (JStr (utf8_chars s ! i)) else Inl IndexError)
      | JObj kvs \<Rightarrow> Inl KeyError
      | _ \<Rightarrow> Inl TypeError)"

text \<open>\<^verbatim>\<open>v.get(k, default)\<close>: only a dict has the method.\<close>

definition py_get :: "json \<Rightarrow> string \<Rightarrow> json \<Rightarrow> exn + json" where
  "py_get v k d =
     (case v of
        JObj kvs \<Rightarrow> (case map_of kvs k of Some x \<Rightarrow> Inr x | None \<Rightarrow> Inr d)
      | _ \<Rightarrow> Inl AttributeError)"

text \<open>\<^verbatim>\<open>for x in v\<close>: the elements of a list, the keys of a dict, the characters of
  a str.\<close>

definition py_iter :: "json \<Rightarrow> exn + json list" where
  "py_iter v =
     (case v of
        JArr xs \<Rightarrow> Inr xs
      | JObj kvs \<Rightarrow> Inr (map (\<lambda>kv. JStr (fst kv)) kvs)
      | JStr s \<Rightarrow> Inr (map JStr (utf8_chars s))
      | _ \<Rightarrow> Inl TypeError)"

subsection \<open>Number formatting\<close>

definition digit :: "nat \<Rightarrow> char" where
  "digit d = ''0123456789'' ! d"

fun string_of_nat :: "nat \<Rightarrow> string" where
  "string_of_nat n =
     (if n < 10 then [digit n] else string_of_nat (n div 10) @ [digit (n mod 10)])"

text \<open>
  The parts of the Python runtime that are taken as given: \<^verbatim>\<open>json.loads\<close> (\<open>None\<close> is
  \<^verbatim>\<open>JSONDecodeError\<close>; an object it returns is a dict, so its keys are distinct) and
  the \<^verbatim>\<open>.2f\<close> formatting of floating-point numbers.
\<close>

record runtime =
  json_loads :: "string \<Rightarrow> json option"
  float_2f :: "json \<Rightarrow> exn + string"

text \<open>
  \<^verbatim>\<open>f"{v:.2f}"\<close>. An int (or bool) is converted to a float first, which is exact up
  to \<open>2 ^ 53\<close>: there the digits are written out; beyond it, and for floats, the
  runtime's formatting is used. A str has no format code \<^verbatim>\<open>f\<close> (\<^verbatim>\<open>ValueError\<close>), and
  \<^verbatim>\<open>None\<close>, lists and dicts take no format string at all (\<^verbatim>\<open>TypeError\<close>).
\<close>

definition format_2f :: "runtime \<Rightarrow> json \<Rightarrow> exn + string" where
  "format_2f rt v =
     (case v of
        JInt n \<Rightarrow>
          (if \<bar>n\<bar> \<le> 2 ^ 53
           then Inr ((if n < 0 then ''-'' else '''') @ string_of_nat (nat \<bar>n\<bar>) @ ''.00'')
           else float_2f rt v)
      | JBool b \<Rightarrow> Inr (if b then ''1.00'' else ''0.00'')
      | JFloat f \<Rightarrow> float_2f rt v
      | JStr s \<Rightarrow> Inl ValueError
      | _ \<Rightarrow> Inl TypeError)"

section \<open>Effects\<close>

text \<open>
  A run is observed through the list of its effects, in order: every \<^verbatim>\<open>logging\<close> call
  and every \<^verbatim>\<open>print\<close> with the text of its template as the source writes it and the
  values of its fields, every connection attempt to a socket path, every request handed
  to the socket (the payload before \<^verbatim>\<open>json.dumps\<close>; the framing character is appended
  to each), and every sleep with its length in seconds. Two prints differ: the status
  line of the cooperative client is given as it is printed, with its numbers formatted,
  and the line with the elapsed time carries no value, since the clock is not modelled.
\<close>

datatype level = DEBUG | WARNING | ERROR

datatype arg = AStr string | ANat nat | AJson json | AExn exn

datatype event =
    Log level string "arg list"
  | Print string "arg list"
  | Connect string
  | Send json
  | Sleep nat

text \<open>How a call of \<^verbatim>\<open>get_printer_status\<close> ends: it returns, an exception leaves it,
  or it is still running when the fuel of the update loop is used up.\<close>

datatype flow = Return | Raise exn | Diverge

type_synonym 'a io = "event list \<times> (exn + 'a)"

definition seq :: "'a io \<Rightarrow> ('a \<Rightarrow> 'b io) \<Rightarrow> 'b io" where
  "seq m f =
     (case m of
        (evs, Inl e) \<Rightarrow> (evs, Inl e)
      | (evs, Inr x) \<Rightarrow> (case f x of (evs', r) \<Rightarrow> (evs @ evs', r)))"

definition emit :: "event \<Rightarrow> unit io" where
  "emit ev = ([ev], Inr ())"

definition emit_all :: "event list \<Rightarrow> unit io" where
  "emit_all evs = (evs, Inr ())"

definition ret :: "'a \<Rightarrow> 'a io" where
  "ret x = ([], Inr x)"

definition pure :: "exn + 'a \<Rightarrow> 'a io" where
  "pure r = ([], r)"

text \<open>The result of \<^verbatim>\<open>json.loads\<close> as a value or \<^verbatim>\<open>JSONDecodeError\<close>.\<close>

definition loads :: "runtime \<Rightarrow> string \<Rightarrow> exn + json" where
  "loads rt s = (case json_loads rt s of None \<Rightarrow> Inl JSONDecodeError | Some v \<Rightarrow> Inr v)"

text \<open>The outcome of the \<open>i\<close>-th write on a connection; a write the script does not
  mention succeeds.\<close>

definition write_result :: "sock_error option list \<Rightarrow> nat \<Rightarrow> exn + unit" where
  "write_result ws i =
     (if i < length ws then (case ws ! i of None \<Rightarrow> Inr () | Some e \<Rightarrow> Inl (sock_exn e))
      else Inr ())"

section \<open>What the resolver functions found\<close>

text \<open>
  \<^verbatim>\<open>find_processes_and_config_files\<close> and \<^verbatim>\<open>parse_config_files\<close> scan the process table
  and the file system; their results are the input of the protocol code: the processes
  (name, pid, command line), the configuration files, the socket path and the API key
  of the firmware (the Moonraker port and key are read and never used), and, for the
  blocking client, the user \<^verbatim>\<open>check_systemd_service\<close> finds in a service file.
\<close>

record resolved =
  processes :: "(string \<times> nat \<times> string list) list"
  config_files :: "string list"
  klipper_uds :: "string option"
  klipper_api_key :: "string option"
  service_user :: "string \<Rightarrow> string option"

fun join_sp :: "string list \<Rightarrow> string" where
  "join_sp [] = []"
| "join_sp [x] = x"
| "join_sp (x # y # ys) = x @ '' '' @ join_sp (y # ys)"

section \<open>The requests\<close>

definition list_request :: json where
  "list_request =
     JObj [(''jsonrpc'', JStr ''2.0''), (''method'', JStr ''objects/list''), (''id'', JInt 123)]"

definition query_params :: json where
  "query_params =
     JObj [(''objects'',
       JObj [(''toolhead'', JArr [JStr ''position'']), (''print_stats'', JArr [JStr ''state''])])]"

text \<open>\<^verbatim>\<open>if klipper_api_key:\<close> is false for \<^verbatim>\<open>None\<close> and for the empty string.\<close>

definition truthy :: "string option \<Rightarrow> bool" where
  "truthy k = (case k of None \<Rightarrow> False | Some s \<Rightarrow> s \<noteq> [])"

definition query_request :: "string option \<Rightarrow> json" where
  "query_request key =
     (if truthy key then
        JObj [(''jsonrpc'', JStr ''2.0''), (''method'', JStr ''printer.objects.query''),
              (''params'', query_params), (''id'', JInt 1),
              (''api_key'', (case key of Some k \<Rightarrow> JStr k | None \<Rightarrow> JNull))]
      else
        JObj [(''jsonrpc'', JStr ''2.0''), (''method'', JStr ''printer.objects.query''),
              (''params'', query_params), (''id'', JInt 1)])"

definition subscribe_request :: json where
  "subscribe_request =
     JObj [(''jsonrpc'', JStr ''2.0''), (''method'', JStr ''objects/subscribe''),
           (''params'', JObj [(''objects'', JObj [(''toolhead'', JArr [JStr ''position''])])]),
           (''id'', JInt 456)]"

section \<open>The blocking client (3dstatus.py)\<close>

text \<open>
  What the far end does on one connection: whether \<^verbatim>\<open>connect\<close> fails, the outcome of
  each \<^verbatim>\<open>sendall\<close>, and what the successive \<^verbatim>\<open>recv(4096)\<close> calls return: data (empty
  when the peer has closed) or a socket error, the receive timeout of ten seconds
  among them. Past the end of the script the peer has closed.
\<close>

datatype recv = Data bytes | RecvError sock_error

record sock_env =
  connect_error :: "sock_error option"
  sendall_errors :: "sock_error option list"
  recv_script :: "recv list"

text \<open>The loop of \<^verbatim>\<open>receive_response\<close>: it ends when the peer has closed or on a
  socket error (\<^verbatim>\<open>socket.timeout\<close> is one), never on the framing character.\<close>

fun recv_loop :: "recv list \<Rightarrow> bytes \<Rightarrow> bytes \<times> recv list" where
  "recv_loop [] response_data = (response_data, [])"
| "recv_loop (Data chunk # rs) response_data =
     (if chunk = [] then (response_data, rs) else recv_loop rs (response_data @ chunk))"
| "recv_loop (RecvError e # rs) response_data = (response_data, rs)"

text \<open>\<^verbatim>\<open>s.strip('\x03')\<close>\<close>

definition strip_etx :: "string \<Rightarrow> string" where
  "strip_etx s = rev (dropWhile (\<lambda>c. c = ETX) (rev (dropWhile (\<lambda>c. c = ETX) s)))"

definition receive_response_sync :: "recv list \<Rightarrow> (exn + string) \<times> recv list" where
  "receive_response_sync rs =
     (case recv_loop rs [] of
        (response_data, rs') \<Rightarrow>
          (if utf8_valid response_data then Inr (strip_etx response_data)
           else Inl UnicodeDecodeError, rs'))"

text \<open>Lines 229 to 237: the reply to the status query.\<close>

definition status_reply :: "json \<Rightarrow> bool io" where
  "status_reply data =
     seq (pure (py_contains ''result'' data)) (\<lambda>has_result.
       if has_result then
         seq (pure (then_e (py_getitem data ''result'') (\<lambda>r.
                    then_e (py_getitem r ''status'') (\<lambda>s.
                    then_e (py_getitem s ''toolhead'') (\<lambda>t.
                    py_getitem t ''position''))))) (\<lambda>toolhead_position.
         seq (pure (then_e (py_getitem data ''result'') (\<lambda>r.
                    then_e (py_getitem r ''status'') (\<lambda>s.
                    then_e (py_getitem s ''print_stats'') (\<lambda>p.
                    py_getitem p ''state''))))) (\<lambda>print_state.
         seq (pure (py_index toolhead_position 0)) (\<lambda>x.
         seq (pure (py_index toolhead_position 1)) (\<lambda>y.
         seq (pure (py_index toolhead_position 2)) (\<lambda>z.
         seq (emit (Print ''Toolhead Position: X={toolhead_position[0]}, Y={toolhead_position[1]}, Z={toolhead_position[2]}''
                      [AJson x, AJson y, AJson z])) (\<lambda>_.
         seq (emit (Print ''Print State: {print_state}'' [AJson print_state])) (\<lambda>_.
         ret True)))))))
       else
         seq (emit (Log ERROR ''Error: Failed to retrieve printer status.'' [])) (\<lambda>_.
         ret False))"

text \<open>Lines 186 to 240, the body of the inner \<^verbatim>\<open>try\<close>. The result is \<open>True\<close> when
  the function returns from inside it (line 235).\<close>

definition exchange_sync :: "runtime \<Rightarrow> string option \<Rightarrow> sock_env \<Rightarrow> bool io" where
  "exchange_sync rt api_key env =
     (case receive_response_sync (recv_script env) of (first, rs1) \<Rightarrow>
      case receive_response_sync rs1 of (second, rs2) \<Rightarrow>
        seq (pure first) (\<lambda>response.
        seq (emit (Log DEBUG ''Received response: {response}'' [AStr response])) (\<lambda>_.
        seq (pure (loads rt response)) (\<lambda>data.
        seq (pure (py_contains ''result'' data)) (\<lambda>has_result.
          if has_result then
            seq (emit (Log DEBUG ''API request succeeded'' [])) (\<lambda>_.
            seq (pure (then_e (py_getitem data ''result'') (\<lambda>r. py_getitem r ''objects''))) (\<lambda>objects.
            seq (emit (Print ''Available objects: {objects}'' [AJson objects])) (\<lambda>_.
            seq (emit (Send (query_request api_key))) (\<lambda>_.
            seq (pure (write_result (sendall_errors env) 1)) (\<lambda>_.
            seq (emit (Log DEBUG ''Sent JSON-RPC request for toolhead and print_stats'' [])) (\<lambda>_.
            seq (pure second) (\<lambda>response.
            seq (emit (Log DEBUG ''Received response: {response}'' [AStr response])) (\<lambda>_.
            seq (pure (loads rt response)) (\<lambda>data.
            status_reply data)))))))))
          else
            seq (emit (Log WARNING ''API request failed. Retrying...'' [])) (\<lambda>_.
            ret False))))))"

text \<open>\<^verbatim>\<open>except (json.JSONDecodeError, KeyError) as e\<close>, line 242.\<close>

definition except_parse :: "bool io \<Rightarrow> bool io" where
  "except_parse m =
     (case m of
        (evs, Inl e) \<Rightarrow>
          (if e = JSONDecodeError \<or> e = KeyError
           then (evs @ [Log ERROR ''Error: Unable to parse response: {e}'' [AExn e]], Inr False)
           else (evs, Inl e))
      | (evs, Inr r) \<Rightarrow> (evs, Inr r))"

text \<open>\<^verbatim>\<open>except socket.timeout\<close> and \<^verbatim>\<open>except Exception as e\<close>, lines 245 to 248.
  \<^verbatim>\<open>KeyboardInterrupt\<close> is no \<^verbatim>\<open>Exception\<close>.\<close>

definition except_sync :: "bool io \<Rightarrow> bool io" where
  "except_sync m =
     (case m of
        (evs, Inl e) \<Rightarrow>
          (if e = SocketTimeout
           then (evs @ [Log WARNING ''Timed out while waiting for response. Retrying...'' []], Inr False)
           else if e \<noteq> KeyboardInterrupt
           then (evs @ [Log ERROR ''Error: {e}'' [AExn e]], Inr False)
           else (evs, Inl e))
      | (evs, Inr r) \<Rightarrow> (evs, Inr r))"

text \<open>
  One pass of the \<^verbatim>\<open>for\<close> loop up to the sleep, lines 160 to 248. The module never
  imports \<^verbatim>\<open>errno\<close>: when \<^verbatim>\<open>connect\<close> raises a socket error, the handler of line 166
  evaluates \<^verbatim>\<open>errno.ECONNREFUSED\<close>, which raises \<^verbatim>\<open>NameError\<close> before any comparison
  is made. The \<^verbatim>\<open>sleep(0.1)\<close> and \<^verbatim>\<open>continue\<close> behind it are never reached, and
  \<^verbatim>\<open>except Exception\<close> of line 247 gets the \<^verbatim>\<open>NameError\<close>.
\<close>

definition attempt_sync ::
  "runtime \<Rightarrow> string option \<Rightarrow> string \<Rightarrow> nat \<Rightarrow> sock_env \<Rightarrow> nat \<Rightarrow> bool io" where
  "attempt_sync rt api_key uds max_attempts env attempt =
     except_sync (
       seq (emit (Log DEBUG ''Attempting to connect to Unix Domain Socket: {klipper_uds} (Attempt {attempt + 1}/{max_attempts})''
                    [AStr uds, ANat (attempt + 1), ANat max_attempts])) (\<lambda>_.
       seq (emit (Connect uds)) (\<lambda>_.
       seq (pure (case connect_error env of None \<Rightarrow> Inr () | Some e \<Rightarrow> Inl NameError)) (\<lambda>_.
       seq (emit (Log DEBUG ''Connected to Unix Domain Socket'' [])) (\<lambda>_.
       seq (emit (Send list_request)) (\<lambda>_.
       seq (pure (write_result (sendall_errors env) 0)) (\<lambda>_.
       seq (emit (Log DEBUG ''Sent JSON-RPC request for objects/list'' [])) (\<lambda>_.
       except_parse (exchange_sync rt api_key env)))))))))"

text \<open>The \<^verbatim>\<open>for attempt in range(max_attempts)\<close> loop and the line after it.\<close>

definition failed_msg :: event where
  "failed_msg = Log ERROR ''Failed to establish communication with Klipper after multiple attempts.'' []"

fun attempts_sync ::
  "runtime \<Rightarrow> string option \<Rightarrow> string \<Rightarrow> nat \<Rightarrow> nat \<Rightarrow> (nat \<Rightarrow> sock_env) \<Rightarrow> nat list
   \<Rightarrow> event list \<times> flow" where
  "attempts_sync rt api_key uds max_attempts delay envs [] = ([failed_msg], Return)"
| "attempts_sync rt api_key uds max_attempts delay envs (attempt # rest) =
     (case attempt_sync rt api_key uds max_attempts (envs attempt) attempt of
        (evs, Inl e) \<Rightarrow> (evs, Raise e)
      | (evs, Inr True) \<Rightarrow> (evs, Return)
      | (evs, Inr False) \<Rightarrow>
          (case attempts_sync rt api_key uds max_attempts delay envs rest of
             (evs', fl) \<Rightarrow> (evs @ Sleep delay # evs', fl)))"

text \<open>Lines 138 to 144: what was found is logged.\<close>

definition found_events_sync :: "resolved \<Rightarrow> event list" where
  "found_events_sync res =
     Log DEBUG ''Found processes:'' []
     # map (\<lambda>(process_name, pid, cmdline).
              Log DEBUG ''- {process_name}: {' '.join(process.info['cmdline'])}''
                [AStr process_name, AStr (join_sp cmdline)])
           (processes res)
     @ Log DEBUG ''\<newline>Found config files:'' []
     # map (\<lambda>config_file. Log DEBUG ''- {config_file}'' [AStr config_file]) (config_files res)"

text \<open>Lines 152 to 154 with \<^verbatim>\<open>check_systemd_service\<close>: a line for each process whose
  service file names a user.\<close>

definition systemd_events :: "resolved \<Rightarrow> event list" where
  "systemd_events res =
     Log DEBUG ''\<newline>Checking systemd service configurations:'' []
     # concat (map (\<lambda>(process_name, pid, cmdline).
         (case service_user res process_name of
            None \<Rightarrow> []
          | Some u \<Rightarrow> [Log DEBUG ''{service_name} runs under user: {service_user}''
                           [AStr process_name, AStr u]]))
         (processes res))"

text \<open>\<^verbatim>\<open>get_printer_status\<close>, with \<^verbatim>\<open>max_attempts = 3\<close> and \<^verbatim>\<open>delay = 2\<close> of lines 156
  and 157. \<open>envs i\<close> is the peer that the connection of pass \<open>i\<close> meets.\<close>

definition get_printer_status_sync ::
  "runtime \<Rightarrow> resolved \<Rightarrow> (nat \<Rightarrow> sock_env) \<Rightarrow> event list \<times> flow" where
  "get_printer_status_sync rt res envs =
     (case klipper_uds res of
        None \<Rightarrow>
          (found_events_sync res @ [Log ERROR ''Error: Could not find Unix Domain Socket path.'' []],
           Return)
      | Some uds \<Rightarrow>
          (case attempts_sync rt (klipper_api_key res) uds 3 2 envs [0..<3] of
             (evs, fl) \<Rightarrow> (found_events_sync res @ systemd_events res @ evs, fl)))"

section \<open>The cooperative client (klippertest.py)\<close>

text \<open>
  What the far end does on one connection: whether \<^verbatim>\<open>open_unix_connection\<close> fails, the
  outcome of each \<^verbatim>\<open>drain\<close>, and what the successive \<^verbatim>\<open>reader.read(4096)\<close> calls
  give: the bytes of one read (at most 4096 of them; none at end of stream), a
  connection error, or an interrupt of the user delivered while the read is awaited.
  Past the end of the script the stream is at its end: every further read returns
  \<^verbatim>\<open>b''\<close>.
\<close>

datatype rd = Chunk bytes | ReadError sock_error | Interrupt

record stream_env =
  open_error :: "sock_error option"
  drain_errors :: "sock_error option list"
  read_script :: "rd list"

text \<open>The loop of \<^verbatim>\<open>receive_response\<close>, lines 114 to 126. \<^verbatim>\<open>response_data\<close> is a local
  variable: what a call has read is gone when it returns.\<close>

fun read_loop :: "rd list \<Rightarrow> bytes \<Rightarrow> event list \<times> (exn + bytes) \<times> rd list" where
  "read_loop [] response_data = ([], Inr response_data, [])"
| "read_loop (Chunk chunk # rs) response_data =
     (if chunk = [] then ([], Inr response_data, rs)
      else if ETX \<in> set (response_data @ chunk) then ([], Inr (response_data @ chunk), rs)
      else read_loop rs (response_data @ chunk))"
| "read_loop (ReadError e # rs) response_data =
     ([Log ERROR ''Error while receiving response: {e}'' [AExn (sock_exn e)]],
      Inr response_data, rs)"
| "read_loop (Interrupt # rs) response_data = ([], Inl KeyboardInterrupt, rs)"

text \<open>\<^verbatim>\<open>response_data.split(b'\x03')[0]\<close>\<close>

definition first_part :: "bytes \<Rightarrow> bytes" where
  "first_part response_data = takeWhile (\<lambda>c. c \<noteq> ETX) response_data"

text \<open>\<^verbatim>\<open>receive_response\<close>: the response string, and the reads that are left for the
  calls that follow on the same reader.\<close>

definition receive_response_async :: "rd list \<Rightarrow> (string \<times> rd list) io" where
  "receive_response_async rs =
     (case read_loop rs [] of
        (evs, Inl e, rs') \<Rightarrow> (evs, Inl e)
      | (evs, Inr response_data, rs') \<Rightarrow>
          (evs,
           if utf8_valid (first_part response_data) then Inr (first_part response_data, rs')
           else Inl UnicodeDecodeError))"

text \<open>\<^verbatim>\<open>toolhead.get('position', [0, 0, 0])[i]\<close> formatted with \<^verbatim>\<open>.2f\<close>.\<close>

definition coordinate :: "runtime \<Rightarrow> json \<Rightarrow> nat \<Rightarrow> exn + string" where
  "coordinate rt toolhead i =
     then_e (py_get toolhead ''position'' (JArr [JInt 0, JInt 0, JInt 0])) (\<lambda>position.
     then_e (py_index position i) (format_2f rt))"

text \<open>The line is printed once all three coordinates are formatted.\<close>

definition print_printer_status :: "runtime \<Rightarrow> json \<Rightarrow> unit io" where
  "print_printer_status rt status =
     seq (pure (py_get status ''toolhead'' (JObj []))) (\<lambda>toolhead.
     seq (pure (coordinate rt toolhead 0)) (\<lambda>x.
     seq (pure (coordinate rt toolhead 1)) (\<lambda>y.
     seq (pure (coordinate rt toolhead 2)) (\<lambda>z.
     emit (Print (''Toolhead Position: X='' @ x @ '', Y='' @ y @ '', Z='' @ z) [])))))"

text \<open>The body of the \<^verbatim>\<open>try\<close> in the update loop, lines 204 to 212.\<close>

definition update_step :: "runtime \<Rightarrow> rd list \<Rightarrow> rd list io" where
  "update_step rt rs =
     seq (receive_response_async rs) (\<lambda>(update, rs').
     seq (if update \<noteq> [] then
            seq (pure (loads rt update)) (\<lambda>update_data.
            seq (pure (py_contains ''params'' update_data)) (\<lambda>has_params.
              if has_params then
                seq (pure (then_e (py_getitem update_data ''params'') (\<lambda>p.
                           py_getitem p ''status''))) (\<lambda>status.
                print_printer_status rt status)
              else ret ()))
          else emit (Sleep 1)) (\<lambda>_.
     ret rs'))"

text \<open>
  \<^verbatim>\<open>while True\<close>, lines 202 to 218. Only an exception ends the loop, so it may run
  forever: the fuel counts the passes, and \<open>Running\<close> says that the loop had not ended
  when the fuel was used up.
\<close>

datatype progress = Done | Running

fun updates_loop :: "runtime \<Rightarrow> nat \<Rightarrow> rd list \<Rightarrow> event list \<times> progress" where
  "updates_loop rt 0 rs = ([], Running)"
| "updates_loop rt (Suc fuel) rs =
     (case update_step rt rs of
        (evs, Inr rs') \<Rightarrow>
          (case updates_loop rt fuel rs' of (evs', p) \<Rightarrow> (evs @ evs', p))
      | (evs, Inl e) \<Rightarrow>
          (if e = KeyboardInterrupt
           then (evs @ [Print ''\<newline>Stopped listening for updates.'' []], Done)
           else (evs @ [Log ERROR ''Error while receiving updates: {e}'' [AExn e]], Done)))"

text \<open>The update loop as the last step of the attempt: it raises nothing.\<close>

definition finish :: "event list \<times> progress \<Rightarrow> progress io" where
  "finish l = (fst l, Inr (snd l))"

text \<open>Lines 160 to 222, the body of the \<^verbatim>\<open>try\<close> of one attempt.\<close>

definition handshake_async ::
  "runtime \<Rightarrow> string \<Rightarrow> nat \<Rightarrow> nat \<Rightarrow> stream_env \<Rightarrow> nat \<Rightarrow> progress io" where
  "handshake_async rt uds max_attempts fuel env attempt =
     seq (emit (Log DEBUG ''Attempting to connect to Unix Domain Socket: {klipper_uds} (Attempt {attempt + 1}/{max_attempts})''
                  [AStr uds, ANat (attempt + 1), ANat max_attempts])) (\<lambda>_.
     seq (emit (Connect uds)) (\<lambda>_.
     seq (pure (case open_error env of None \<Rightarrow> Inr () | Some e \<Rightarrow> Inl (sock_exn e))) (\<lambda>_.
     seq (emit (Log DEBUG ''Connected to Unix Domain Socket'' [])) (\<lambda>_.
     seq (emit (Send list_request)) (\<lambda>_.
     seq (pure (write_result (drain_errors env) 0)) (\<lambda>_.
     seq (receive_response_async (read_script env)) (\<lambda>(response, rs1).
     seq (emit (Log DEBUG ''Received response: {response}'' [AStr response])) (\<lambda>_.
       if response \<noteq> [] then
         seq (pure (loads rt response)) (\<lambda>data.
         seq (emit (Log DEBUG ''Parsed response: {data}'' [AJson data])) (\<lambda>_.
         seq (pure (py_contains ''result'' data)) (\<lambda>has_result.
           if has_result then
             seq (emit (Log DEBUG ''API request succeeded'' [])) (\<lambda>_.
             seq (pure (then_e (py_getitem data ''result'') (\<lambda>r. py_getitem r ''objects''))) (\<lambda>objects.
             seq (emit (Print ''Available objects:'' [])) (\<lambda>_.
             seq (pure (py_iter objects)) (\<lambda>objs.
             seq (emit_all (map (\<lambda>obj. Print ''  - {obj}'' [AJson obj]) objs)) (\<lambda>_.
             seq (emit (Print ''Time taken to get initial response: {end_time - start_time:.6f} seconds'' [])) (\<lambda>_.
             seq (emit (Send subscribe_request)) (\<lambda>_.
             seq (pure (write_result (drain_errors env) 1)) (\<lambda>_.
             seq (emit (Log DEBUG ''Sent JSON-RPC request to subscribe to printer objects'' [])) (\<lambda>_.
             finish (updates_loop rt fuel rs1))))))))))
           else
             seq (pure (py_get data ''error'' (JStr ''Unknown error''))) (\<lambda>err.
             seq (emit (Log ERROR ''Error in objects/list: {data.get('error', 'Unknown error')}''
                          [AJson err])) (\<lambda>_.
             ret Done)))))
       else
         seq (emit (Log ERROR ''No response received'' [])) (\<lambda>_.
         ret Done)))))))))"

text \<open>\<^verbatim>\<open>except (json.JSONDecodeError, KeyError) as e\<close> and \<^verbatim>\<open>except Exception as e\<close>,
  lines 224 to 227.\<close>

definition except_async :: "progress io \<Rightarrow> progress io" where
  "except_async m =
     (case m of
        (evs, Inl e) \<Rightarrow>
          (if e = JSONDecodeError \<or> e = KeyError
           then (evs @ [Log ERROR ''Error: Unable to parse response: {e}'' [AExn e]], Inr Done)
           else if e \<noteq> KeyboardInterrupt
           then (evs @ [Log ERROR ''Error: {e}'' [AExn e]], Inr Done)
           else (evs, Inl e))
      | (evs, Inr p) \<Rightarrow> (evs, Inr p))"

text \<open>One pass of the \<^verbatim>\<open>for\<close> loop up to the sleep.\<close>

definition attempt_async ::
  "runtime \<Rightarrow> string \<Rightarrow> nat \<Rightarrow> nat \<Rightarrow> stream_env \<Rightarrow> nat \<Rightarrow> progress io" where
  "attempt_async rt uds max_attempts fuel env attempt =
     except_async (handshake_async rt uds max_attempts fuel env attempt)"

text \<open>The \<^verbatim>\<open>for attempt in range(max_attempts)\<close> loop with the sleep that ends each
  pass, and the line after the loop.\<close>

fun attempts_async ::
  "runtime \<Rightarrow> string \<Rightarrow> nat \<Rightarrow> nat \<Rightarrow> nat \<Rightarrow> (nat \<Rightarrow> stream_env) \<Rightarrow> nat list
   \<Rightarrow> event list \<times> flow" where
  "attempts_async rt uds max_attempts delay fuel envs [] = ([failed_msg], Return)"
| "attempts_async rt uds max_attempts delay fuel envs (attempt # rest) =
     (case attempt_async rt uds max_attempts fuel (envs attempt) attempt of
        (evs, Inl e) \<Rightarrow> (evs, Raise e)
      | (evs, Inr Running) \<Rightarrow> (evs, Diverge)
      | (evs, Inr Done) \<Rightarrow>
          (case attempts_async rt uds max_attempts delay fuel envs rest of
             (evs', fl) \<Rightarrow> (evs @ Sleep delay # evs', fl)))"

text \<open>Lines 141 to 147: what was found is logged, here with the process id.\<close>

definition found_events_async :: "resolved \<Rightarrow> event list" where
  "found_events_async res =
     Log DEBUG ''Found processes:'' []
     # map (\<lambda>(process_name, pid, cmdline).
              Log DEBUG ''- {process_name} (PID: {pid}): {' '.join(process.info['cmdline'])}''
                [AStr process_name, ANat pid, AStr (join_sp cmdline)])
           (processes res)
     @ Log DEBUG ''\<newline>Found config files:'' []
     # map (\<lambda>config_file. Log DEBUG ''- {config_file}'' [AStr config_file]) (config_files res)"

text \<open>\<^verbatim>\<open>get_printer_status\<close>, with \<^verbatim>\<open>max_attempts = 3\<close> and \<^verbatim>\<open>delay = 2\<close> of lines 155
  and 156. \<open>envs i\<close> is the peer that the connection of pass \<open>i\<close> meets, and \<open>fuel\<close>
  bounds the passes of each update loop.\<close>

definition get_printer_status_async ::
  "runtime \<Rightarrow> resolved \<Rightarrow> nat \<Rightarrow> (nat \<Rightarrow> stream_env) \<Rightarrow> event list \<times> flow" where
  "get_printer_status_async rt res fuel envs =
     (case klipper_uds res of
        None \<Rightarrow>
          (found_events_async res @ [Log ERROR ''Error: Could not find Unix Domain Socket path.'' []],
           Return)
      | Some uds \<Rightarrow>
          (case attempts_async rt uds 3 2 fuel envs [0..<3] of
             (evs, fl) \<Rightarrow> (found_events_async res @ evs, fl)))"

section \<open>Observations on a run\<close>

text \<open>The requests handed to the socket and the connection attempts, in order.\<close>

fun sends :: "event list \<Rightarrow> json list" where
  "sends [] = []"
| "sends (Send j # evs) = j # sends evs"
| "sends (ev # evs) = sends evs"

fun connects :: "event list \<Rightarrow> string list" where
  "connects [] = []"
| "connects (Connect u # evs) = u # connects evs"
| "connects (ev # evs) = connects evs"

text \<open>The first line the function logs: the resolver functions have run.\<close>

definition resolution_done :: event where
  "resolution_done = Log DEBUG ''Found processes:'' []"

text \<open>The first line of every attempt.\<close>

definition attempting :: "string \<Rightarrow> nat \<Rightarrow> nat \<Rightarrow> event" where
  "attempting uds n i =
     Log DEBUG ''Attempting to connect to Unix Domain Socket: {klipper_uds} (Attempt {attempt + 1}/{max_attempts})''
       [AStr uds, ANat (i + 1), ANat n]"

text \<open>The landmarks of a run whose attempt loop sleeps \<open>delay\<close> seconds: the end of
  endpoint resolution, each connection attempt, each sleep of that length and the final
  failure message.\<close>

definition landmark :: "nat \<Rightarrow> event \<Rightarrow> bool" where
  "landmark delay ev =
     (ev = resolution_done \<or> ev = failed_msg \<or> ev = Sleep delay
      \<or> (case ev of Connect u \<Rightarrow> True | _ \<Rightarrow> False))"

definition landmarks :: "nat \<Rightarrow> event list \<Rightarrow> event list" where
  "landmarks delay evs = filter (landmark delay) evs"

text \<open>A decoded reply that is no object with a \<^verbatim>\<open>result\<close> key.\<close>

definition no_result :: "json \<Rightarrow> bool" where
  "no_result data = (case data of JObj kvs \<Rightarrow> ''result'' \<notin> set (map fst kvs) | _ \<Rightarrow> True)"




text \<open>A computation that no interrupt leaves, one without a landmark, and one that
  hands no request to the socket.\<close>

definition calm :: "'a io \<Rightarrow> bool" where
  "calm m = (snd m \<noteq> Inl KeyboardInterrupt)"

definition quiet :: "nat \<Rightarrow> 'a io \<Rightarrow> bool" where
  "quiet delay m = (landmarks delay (fst m) = [])"

definition silent :: "'a io \<Rightarrow> bool" where
  "silent m = (sends (fst m) = [])"

section \<open>Example frames and peers\<close>

text \<open>
  The frames of the scenarios of the specification, each with the value \<^verbatim>\<open>json.loads\<close>
  gives for it. \<open>example_loads\<close> is \<^verbatim>\<open>json.loads\<close> on these texts; every other text
  the examples decode (the empty text, \<^verbatim>\<open>oops\<close>, two frames with a framing character
  between them) is no JSON document. The examples hold no float and no integer beyond
  \<open>2 ^ 53\<close>, so \<open>float_2f\<close> is never called in them.
\<close>

definition list_reply_text :: string where
  \<open>list_reply_text = ''{"id":123,"result":{"objects":["toolhead","print_stats"]}}''\<close>

definition list_reply :: json where
  "list_reply =
     JObj [(''id'', JInt 123),
           (''result'', JObj [(''objects'', JArr [JStr ''toolhead'', JStr ''print_stats''])])]"

definition notification_text :: string where
  \<open>notification_text =
     ''{"method":"notify_status_update","params":{"status":{"toolhead":{"position":[1,2,3]}}}}''\<close>

definition notification :: json where
  "notification =
     JObj [(''method'', JStr ''notify_status_update''),
           (''params'', JObj [(''status'',
              JObj [(''toolhead'', JObj [(''position'', JArr [JInt 1, JInt 2, JInt 3])])])])]"

definition error_reply_text :: string where
  \<open>error_reply_text = ''{"id":1,"error":{"message":"x"}}''\<close>

definition error_reply :: json where
  "error_reply = JObj [(''id'', JInt 1), (''error'', JObj [(''message'', JStr ''x'')])]"

definition status_text :: string where
  \<open>status_text =
     ''{"id":1,"result":{"status":{"toolhead":{"position":[1,2,3]},"print_stats":{"state":"printing"}}}}''\<close>

definition status_value :: json where
  "status_value =
     JObj [(''toolhead'', JObj [(''position'', JArr [JInt 1, JInt 2, JInt 3])]),
           (''print_stats'', JObj [(''state'', JStr ''printing'')])]"

definition status_response :: json where
  "status_response = JObj [(''id'', JInt 1), (''result'', JObj [(''status'', status_value)])]"

definition result_and_error_text :: string where
  \<open>result_and_error_text =
     ''{"id":1,"result":{"status":{"toolhead":{"position":[1,2,3]},"print_stats":{"state":"printing"}}},"error":{"message":"x"}}''\<close>

definition result_and_error :: json where
  "result_and_error =
     JObj [(''id'', JInt 1), (''result'', JObj [(''status'', status_value)]),
           (''error'', JObj [(''message'', JStr ''x'')])]"

definition error_list_text :: string where
  \<open>error_list_text = ''{"id":123,"error":{"message":"x"}}''\<close>

definition error_list :: json where
  "error_list = JObj [(''id'', JInt 123), (''error'', JObj [(''message'', JStr ''x'')])]"

definition foreign_reply_text :: string where
  \<open>foreign_reply_text = ''{"id":7,"result":{"objects":["toolhead"]}}''\<close>

definition foreign_reply :: json where
  "foreign_reply =
     JObj [(''id'', JInt 7), (''result'', JObj [(''objects'', JArr [JStr ''toolhead''])])]"

definition example_loads :: "string \<Rightarrow> json option" where
  "example_loads =
     map_of [(list_reply_text, list_reply), (notification_text, notification),
             (error_reply_text, error_reply), (status_text, status_response),
             (result_and_error_text, result_and_error), (error_list_text, error_list),
             (foreign_reply_text, foreign_reply)]"

definition example_rt :: runtime where
  "example_rt = \<lparr>json_loads = example_loads, float_2f = (\<lambda>v. Inl TypeError)\<rparr>"

definition example_res :: resolved where
  "example_res =
     \<lparr>processes = [(''klipper'', 812, [''python'', ''klippy.py'', ''printer.cfg''])],
      config_files = [''printer.cfg''],
      klipper_uds = Some ''/tmp/klippy_uds'',
      klipper_api_key = None,
      service_user = (\<lambda>name. None)\<rparr>"

text \<open>Peers of the blocking client: one that refuses the connection (errno 111), one
  that closes without a reply, one that sends a notification only, one that sends a
  notification and then the reply, one that answers the list request with an error, and
  two that answer the status query with an error, with and without a result beside
  it.\<close>

definition refusing_sock :: sock_env where
  "refusing_sock = \<lparr>connect_error = Some (Errno 111), sendall_errors = [], recv_script = []\<rparr>"

definition closing_sock :: sock_env where
  "closing_sock = \<lparr>connect_error = None, sendall_errors = [], recv_script = []\<rparr>"

definition closing_socks :: "nat \<Rightarrow> sock_env" where
  "closing_socks i = closing_sock"

definition notified_sock :: sock_env where
  "notified_sock =
     \<lparr>connect_error = None, sendall_errors = [],
      recv_script = [Data (notification_text @ [ETX]), RecvError Timeout]\<rparr>"

definition notified_socks :: "nat \<Rightarrow> sock_env" where
  "notified_socks i = notified_sock"

definition notifying_sock :: sock_env where
  "notifying_sock =
     \<lparr>connect_error = None, sendall_errors = [],
      recv_script = [Data (notification_text @ [ETX]), Data (list_reply_text @ [ETX]),
                     RecvError Timeout]\<rparr>"

definition error_list_sock :: sock_env where
  "error_list_sock =
     \<lparr>connect_error = None, sendall_errors = [],
      recv_script = [Data (error_list_text @ [ETX]), RecvError Timeout]\<rparr>"

definition error_only_sock :: sock_env where
  "error_only_sock =
     \<lparr>connect_error = None, sendall_errors = [],
      recv_script = [Data (list_reply_text @ [ETX]), RecvError Timeout,
                     Data (error_reply_text @ [ETX]), RecvError Timeout]\<rparr>"

definition erring_sock :: sock_env where
  "erring_sock =
     \<lparr>connect_error = None, sendall_errors = [],
      recv_script = [Data (list_reply_text @ [ETX]), RecvError Timeout,
                     Data (result_and_error_text @ [ETX]), RecvError Timeout]\<rparr>"

definition erring_socks :: "nat \<Rightarrow> sock_env" where
  "erring_socks i = erring_sock"

definition coalesced_recvs :: "recv list" where
  "coalesced_recvs = [Data (list_reply_text @ [ETX] @ notification_text @ [ETX]), Data []]"

text \<open>Peers of the cooperative client: the same, and three that answer the list request
  and then push notifications, followed by a text that is no JSON, or by nothing.\<close>

definition refusing_stream :: stream_env where
  "refusing_stream = \<lparr>open_error = Some (Errno 111), drain_errors = [], read_script = []\<rparr>"

definition closing_stream :: stream_env where
  "closing_stream = \<lparr>open_error = None, drain_errors = [], read_script = []\<rparr>"

definition closing_streams :: "nat \<Rightarrow> stream_env" where
  "closing_streams i = closing_stream"

definition notifying_stream :: stream_env where
  "notifying_stream =
     \<lparr>open_error = None, drain_errors = [],
      read_script = [Chunk (notification_text @ [ETX]), Chunk (list_reply_text @ [ETX])]\<rparr>"

definition notifying_streams :: "nat \<Rightarrow> stream_env" where
  "notifying_streams i = notifying_stream"

definition error_list_stream :: stream_env where
  "error_list_stream =
     \<lparr>open_error = None, drain_errors = [], read_script = [Chunk (error_list_text @ [ETX])]\<rparr>"

definition foreign_stream :: stream_env where
  "foreign_stream =
     \<lparr>open_error = None, drain_errors = [], read_script = [Chunk (foreign_reply_text @ [ETX])]\<rparr>"





definition coalesced_stream :: "rd list" where
  "coalesced_stream = [Chunk (list_reply_text @ [ETX] @ notification_text @ [ETX])]"

section \<open>Basic facts\<close>

declare string_of_nat.simps [simp del]

lemma string_of_nat_0: "string_of_nat 0 = ''0''"
  by (simp add: string_of_nat.simps digit_def)


lemma concat_replicate_3: "concat (replicate 3 xs) = xs @ xs @ xs"
  by (simp add: numeral_3_eq_3)

subsection \<open>Sequencing\<close>

lemma seq_emit: "seq (emit ev) f = (ev # fst (f ()), snd (f ()))"
  by (simp add: seq_def emit_def split: prod.splits)

lemma seq_emit_case: "seq (emit ev) f = (case f () of (evs, r) \<Rightarrow> (ev # evs, r))"
  by (simp add: seq_def emit_def)

lemma seq_emit_all: "seq (emit_all evs) f = (case f () of (evs', r) \<Rightarrow> (evs @ evs', r))"
  by (simp add: seq_def emit_all_def)

lemma seq_pure: "seq (pure r) f = (case r of Inl e \<Rightarrow> ([], Inl e) | Inr x \<Rightarrow> f x)"
  by (simp add: seq_def pure_def split: prod.splits sum.splits)

lemma seq_ret: "seq (ret x) f = f x"
  by (simp add: seq_def ret_def split: prod.splits)

lemma seq_pair:
  "seq (evs, r) f = (case r of Inl e \<Rightarrow> (evs, Inl e) | Inr x \<Rightarrow> (evs @ fst (f x), snd (f x)))"
  by (simp add: seq_def split: prod.splits sum.splits)

lemma sends_append: "sends (xs @ ys) = sends xs @ sends ys"
  by (induction xs rule: sends.induct) auto

lemma sends_seq_emit: "sends (fst (seq (emit ev) f)) = sends [ev] @ sends (fst (f ()))"
  by (simp add: seq_emit flip: sends_append)

lemma sends_seq_pure:
  "sends (fst (seq (pure r) f)) = (case r of Inl e \<Rightarrow> [] | Inr x \<Rightarrow> sends (fst (f x)))"
  by (simp add: seq_pure split: sum.splits)

lemma sends_seq_emit_all:
  "sends (fst (seq (emit_all evs) f)) = sends evs @ sends (fst (f ()))"
  by (simp add: seq_emit_all sends_append split: prod.splits)

lemma landmarks_append: "landmarks d (xs @ ys) = landmarks d xs @ landmarks d ys"
  by (simp add: landmarks_def)

lemma landmarks_Cons:
  "landmarks d (ev # evs) = (if landmark d ev then ev # landmarks d evs else landmarks d evs)"
  by (simp add: landmarks_def)

lemma landmarks_Nil: "landmarks d [] = []"
  by (simp add: landmarks_def)

lemma landmark_simps:
  "landmark d (Connect u)"
  "landmark d (Sleep n) = (n = d)"
  "\<not> landmark d (Send j)"
  "\<not> landmark d (Print t a)"
  "\<not> landmark d (Log WARNING t a)"
  "landmark d (Log DEBUG t a) = (t = ''Found processes:'' \<and> a = [])"
  "landmark d (Log ERROR t a) = (Log ERROR t a = failed_msg)"
  by (auto simp: landmark_def resolution_done_def failed_msg_def)

lemma landmarks_failed: "landmarks d [failed_msg] = [failed_msg]"
  by (simp add: landmarks_def landmark_def)

lemma landmarks_seq_emit_skip:
  "\<not> landmark d ev \<Longrightarrow> landmarks d (fst (seq (emit ev) f)) = landmarks d (fst (f ()))"
  by (simp add: seq_emit landmarks_Cons)

lemma landmarks_seq_emit_take:
  "landmark d ev \<Longrightarrow> quiet d (f ()) \<Longrightarrow> landmarks d (fst (seq (emit ev) f)) = [ev]"
  by (simp add: seq_emit landmarks_Cons quiet_def)

lemma py_no_interrupt:
  "py_contains k v \<noteq> Inl KeyboardInterrupt"
  "py_getitem v k \<noteq> Inl KeyboardInterrupt"
  "py_index v i \<noteq> Inl KeyboardInterrupt"
  "py_get v k d \<noteq> Inl KeyboardInterrupt"
  "py_iter v \<noteq> Inl KeyboardInterrupt"
  "loads rt s \<noteq> Inl KeyboardInterrupt"
  "write_result ws i \<noteq> Inl KeyboardInterrupt"
  by (auto simp: py_contains_def py_getitem_def py_index_def py_get_def py_iter_def loads_def
      write_result_def sock_exn_def split: json.splits option.splits sock_error.splits)

lemma then_e_no_interrupt:
  "m \<noteq> Inl KeyboardInterrupt \<Longrightarrow> (\<And>x. f x \<noteq> Inl KeyboardInterrupt)
   \<Longrightarrow> then_e m f \<noteq> Inl KeyboardInterrupt"
  by (auto simp: then_e_def split: sum.splits)

lemma calm_seq: "calm m \<Longrightarrow> (\<And>x. calm (f x)) \<Longrightarrow> calm (seq m f)"
  by (auto simp: calm_def seq_def split: prod.splits sum.splits) (metis snd_conv)

lemma calm_emit: "calm (emit ev)"
  by (simp add: calm_def emit_def)

lemma calm_ret: "calm (ret x)"
  by (simp add: calm_def ret_def)

lemma calm_pure: "r \<noteq> Inl KeyboardInterrupt \<Longrightarrow> calm (pure r)"
  by (simp add: calm_def pure_def)

lemma calm_if: "calm a \<Longrightarrow> calm b \<Longrightarrow> calm (if c then a else b)"
  by simp

lemma quiet_seq: "quiet d m \<Longrightarrow> (\<And>x. quiet d (f x)) \<Longrightarrow> quiet d (seq m f)"
  by (auto simp: quiet_def seq_def landmarks_append split: prod.splits sum.splits) (metis fst_conv)

lemma quiet_emit: "\<not> landmark d ev \<Longrightarrow> quiet d (emit ev)"
  by (simp add: quiet_def emit_def landmarks_def)

lemma quiet_emit_all: "(\<And>ev. ev \<in> set evs \<Longrightarrow> \<not> landmark d ev) \<Longrightarrow> quiet d (emit_all evs)"
  by (auto simp: quiet_def emit_all_def landmarks_def filter_empty_conv)

lemma quiet_ret: "quiet d (ret x)"
  by (simp add: quiet_def ret_def landmarks_def)

lemma quiet_pure: "quiet d (pure r)"
  by (simp add: quiet_def pure_def landmarks_def)

lemma quiet_if: "quiet d a \<Longrightarrow> quiet d b \<Longrightarrow> quiet d (if c then a else b)"
  by simp

lemma quiet_case_prod: "(\<And>a b. quiet d (f a b)) \<Longrightarrow> quiet d (case x of (a, b) \<Rightarrow> f a b)"
  by (simp split: prod.splits)

lemma silent_seq: "silent m \<Longrightarrow> (\<And>x. silent (f x)) \<Longrightarrow> silent (seq m f)"
  by (auto simp: silent_def seq_def sends_append split: prod.splits sum.splits) (metis fst_conv)

lemma silent_emit: "sends [ev] = [] \<Longrightarrow> silent (emit ev)"
  by (simp add: silent_def emit_def)

lemma silent_emit_all: "sends evs = [] \<Longrightarrow> silent (emit_all evs)"
  by (simp add: silent_def emit_all_def)

lemma silent_ret: "silent (ret x)"
  by (simp add: silent_def ret_def)

lemma silent_pure: "silent (pure r)"
  by (simp add: silent_def pure_def)

lemma silent_if: "silent a \<Longrightarrow> silent b \<Longrightarrow> silent (if c then a else b)"
  by simp

lemma silent_case_prod: "(\<And>a b. silent (f a b)) \<Longrightarrow> silent (case x of (a, b) \<Rightarrow> f a b)"
  by (simp split: prod.splits)

subsection \<open>Framing\<close>

lemma utf8_valid_append: "utf8_valid xs \<Longrightarrow> utf8_valid ys \<Longrightarrow> utf8_valid (xs @ ys)"
proof (induction xs rule: utf8_valid.induct)
  case 1
  then show ?case by simp
next
  case (2 c cs)
  consider (a) "byte c < 128"
    | (b) "\<not> byte c < 128" "194 \<le> byte c \<and> byte c < 224"
    | (c) "\<not> byte c < 128" "\<not> (194 \<le> byte c \<and> byte c < 224)" "224 \<le> byte c \<and> byte c < 240"
    | (d) "\<not> byte c < 128" "\<not> (194 \<le> byte c \<and> byte c < 224)" "\<not> (224 \<le> byte c \<and> byte c < 240)"
          "240 \<le> byte c \<and> byte c < 245"
    | (e) "\<not> byte c < 128" "\<not> (194 \<le> byte c \<and> byte c < 224)" "\<not> (224 \<le> byte c \<and> byte c < 240)"
          "\<not> (240 \<le> byte c \<and> byte c < 245)"
    by blast
  then show ?case
  proof cases
    case a
    then show ?thesis using 2 by simp
  next
    case b
    then obtain c1 r where cs: "cs = c1 # r" "cont c1" "utf8_valid r"
      using "2.prems"(1) by (cases cs) auto
    then have "utf8_valid (r @ ys)"
      using "2.IH"(2) [OF b(1) b(2) cs(1)] "2.prems"(2) by simp
    then show ?thesis using b cs by simp
  next
    case c
    then obtain c1 c2 r where cs: "cs = c1 # c2 # r" "cont c1" "cont c2"
      "byte c = 224 \<longrightarrow> 160 \<le> byte c1" "byte c = 237 \<longrightarrow> byte c1 < 160" "utf8_valid r"
      using "2.prems"(1) by (cases cs; cases "tl cs") auto
    then have "utf8_valid (r @ ys)"
      using "2.IH"(3) [OF c(1) c(2) c(3) cs(1)] "2.prems"(2) by simp
    then show ?thesis using c cs by simp
  next
    case d
    then obtain c1 c2 c3 r where cs: "cs = c1 # c2 # c3 # r" "cont c1" "cont c2" "cont c3"
      "byte c = 240 \<longrightarrow> 144 \<le> byte c1" "byte c = 244 \<longrightarrow> byte c1 < 144" "utf8_valid r"
      using "2.prems"(1) by (cases cs; cases "tl cs"; cases "tl (tl cs)") auto
    then have "utf8_valid (r @ ys)"
      using "2.IH"(4) [OF d(1) d(2) d(3) d(4) cs(1)] "2.prems"(2) by simp
    then show ?thesis using d cs by simp
  next
    case e
    then show ?thesis using "2.prems"(1) by (auto split: if_splits)
  qed
qed

lemma utf8_valid_ETX: "utf8_valid [ETX]"
  by (simp add: ETX_def byte_def)

lemma first_part_frame: "ETX \<notin> set v \<Longrightarrow> first_part (v @ ETX # others) = v"
  by (induction v) (auto simp: first_part_def)

lemma strip_etx_frame: "ETX \<notin> set v \<Longrightarrow> strip_etx (v @ [ETX]) = v"
proof -
  assume a: "ETX \<notin> set v"
  have 1: "dropWhile (\<lambda>c. c = ETX) (v @ [ETX]) = (if v = [] then [] else v @ [ETX])"
    using a by (cases v) auto
  have 2: "dropWhile (\<lambda>c. c = ETX) (rev v) = rev v"
    using a by (cases "rev v") (auto simp: hd_rev dest!: arg_cong [of "rev v" _ set])
  show ?thesis
    using 1 2 by (simp add: strip_etx_def)
qed

lemma read_loop_frame:
  assumes "concat cs = v @ [ETX]" and "ETX \<notin> set v" and "[] \<notin> set cs" and "ETX \<notin> set acc"
  shows "read_loop (map Chunk cs @ rest) acc = ([], Inr (acc @ v @ [ETX]), rest)"
  using assms
proof (induction cs arbitrary: acc v)
  case Nil
  then show ?case by simp
next
  case (Cons c cs)
  show ?case
  proof (cases "cs = []")
    case True
    then show ?thesis using Cons.prems by simp
  next
    case False
    then have ne: "concat cs \<noteq> []"
      using Cons.prems(3) by (cases cs) auto
    have "c @ concat cs = v @ [ETX]"
      using Cons.prems(1) by simp
    then obtain v' where v: "v = c @ v'" and rest: "concat cs = v' @ [ETX]"
      using ne by (auto simp: append_eq_append_conv2 append_eq_Cons_conv Cons_eq_append_conv)
    have "read_loop (map Chunk cs @ rest) (acc @ c) = ([], Inr ((acc @ c) @ v' @ [ETX]), rest)"
      using Cons.prems v by (intro Cons.IH [OF rest]) auto
    then show ?thesis
      using Cons.prems v by auto
  qed
qed

lemma receive_async_frame:
  assumes "concat cs = v @ [ETX]" and "ETX \<notin> set v" and "[] \<notin> set cs" and "utf8_valid v"
  shows "receive_response_async (map Chunk cs @ rest) = ([], Inr (v, rest))"
  using read_loop_frame [OF assms(1,2,3), of "[]" rest] assms(2,4)
  by (simp add: receive_response_async_def first_part_frame)

lemma read_loop_first:
  assumes "[] \<notin> set cs" and "ETX \<notin> set acc" and "ETX \<in> set (concat cs)"
  shows "\<exists>k. read_loop (map Chunk cs @ rest) acc
              = ([], Inr (acc @ concat (take k cs)), map Chunk (drop k cs) @ rest)
            \<and> first_part (acc @ concat (take k cs)) = first_part (acc @ concat cs)"
  using assms
proof (induction cs arbitrary: acc)
  case Nil
  then show ?case by simp
next
  case (Cons c cs)
  show ?case
  proof (cases "ETX \<in> set c")
    case True
    then have "takeWhile (\<lambda>x. x \<noteq> ETX) ((acc @ c) @ concat cs)
        = takeWhile (\<lambda>x. x \<noteq> ETX) (acc @ c)"
      by (intro takeWhile_append1 [of ETX]) auto
    then have "first_part (acc @ c) = first_part (acc @ c @ concat cs)"
      by (simp add: first_part_def)
    moreover have "c \<noteq> []"
      using Cons.prems(1) by auto
    ultimately show ?thesis
      using True by (intro exI [of _ 1]) simp
  next
    case False
    then obtain k where
      "read_loop (map Chunk cs @ rest) (acc @ c)
         = ([], Inr ((acc @ c) @ concat (take k cs)), map Chunk (drop k cs) @ rest)
       \<and> first_part ((acc @ c) @ concat (take k cs)) = first_part ((acc @ c) @ concat cs)"
      using Cons.IH [of "acc @ c"] Cons.prems by auto
    moreover have "c \<noteq> []"
      using Cons.prems(1) by auto
    ultimately show ?thesis
      using False Cons.prems(2) by (intro exI [of _ "Suc k"]) simp
  qed
qed

lemma recv_loop_all:
  "[] \<notin> set cs \<Longrightarrow> t = Data [] \<or> (\<exists>e. t = RecvError e) \<Longrightarrow>
   recv_loop (map Data cs @ t # rest) acc = (acc @ concat cs, rest)"
  by (induction cs arbitrary: acc) auto

subsection \<open>One attempt of the blocking client\<close>

lemma calm_status_reply: "calm (status_reply data)"
  unfolding status_reply_def
  by (intro calm_seq calm_emit calm_ret calm_pure calm_if then_e_no_interrupt py_no_interrupt)

lemma receive_sync_no_interrupt: "fst (receive_response_sync rs) \<noteq> Inl KeyboardInterrupt"
  by (simp add: receive_response_sync_def split: prod.splits)

lemma calm_exchange_sync: "calm (exchange_sync rt key env)"
  unfolding exchange_sync_def
  apply (simp only: split: prod.splits)
  apply (intro allI impI)
  apply (intro calm_seq calm_emit calm_ret calm_pure calm_if then_e_no_interrupt py_no_interrupt calm_status_reply)
   apply (metis receive_sync_no_interrupt fst_conv)+
  done

lemma calm_except_parse: "calm m \<Longrightarrow> calm (except_parse m)"
  by (auto simp: calm_def except_parse_def split: prod.splits sum.splits)

lemma attempt_sync_returns: "\<exists>b. snd (attempt_sync rt key uds n env i) = Inr b"
proof -
  have "calm (seq (emit (Log DEBUG ''Attempting to connect to Unix Domain Socket: {klipper_uds} (Attempt {attempt + 1}/{max_attempts})''
                    [AStr uds, ANat (i + 1), ANat n])) (\<lambda>_.
       seq (emit (Connect uds)) (\<lambda>_.
       seq (pure (case connect_error env of None \<Rightarrow> Inr () | Some e \<Rightarrow> Inl NameError)) (\<lambda>_.
       seq (emit (Log DEBUG ''Connected to Unix Domain Socket'' [])) (\<lambda>_.
       seq (emit (Send list_request)) (\<lambda>_.
       seq (pure (write_result (sendall_errors env) 0)) (\<lambda>_.
       seq (emit (Log DEBUG ''Sent JSON-RPC request for objects/list'' [])) (\<lambda>_.
       except_parse (exchange_sync rt key env)))))))))"
    by (intro calm_seq calm_emit calm_pure calm_except_parse calm_exchange_sync py_no_interrupt)
       (simp split: option.splits)
  then show ?thesis
    unfolding attempt_sync_def
    by (auto simp: calm_def except_sync_def split: prod.splits sum.splits)
qed

lemma quiet_status_reply: "quiet d (status_reply data)"
  unfolding status_reply_def
  by (intro quiet_seq quiet_emit quiet_ret quiet_pure quiet_if) (simp_all add: landmark_simps failed_msg_def)

lemma quiet_exchange_sync: "quiet d (exchange_sync rt key env)"
  unfolding exchange_sync_def
  apply (simp only: split: prod.splits)
  apply (intro allI impI)
  apply (intro quiet_seq quiet_emit quiet_ret quiet_pure quiet_if quiet_status_reply)
  apply (simp_all add: landmark_simps failed_msg_def)
  done

lemma quiet_except_parse: "quiet d m \<Longrightarrow> quiet d (except_parse m)"
  by (auto simp: quiet_def except_parse_def landmarks_append landmarks_Cons landmarks_Nil landmark_simps failed_msg_def
      split: prod.splits sum.splits)

lemma landmarks_except_sync: "landmarks d (fst (except_sync m)) = landmarks d (fst m)"
  by (auto simp: except_sync_def landmarks_append landmarks_Cons landmarks_Nil landmark_simps failed_msg_def
      split: prod.splits sum.splits)

lemma landmarks_attempt_sync: "landmarks d (fst (attempt_sync rt key uds n env i)) = [Connect uds]"
proof -
  have q: "quiet d (seq (pure (case connect_error env of None \<Rightarrow> Inr () | Some e \<Rightarrow> Inl NameError)) (\<lambda>_.
       seq (emit (Log DEBUG ''Connected to Unix Domain Socket'' [])) (\<lambda>_.
       seq (emit (Send list_request)) (\<lambda>_.
       seq (pure (write_result (sendall_errors env) 0)) (\<lambda>_.
       seq (emit (Log DEBUG ''Sent JSON-RPC request for objects/list'' [])) (\<lambda>_.
       except_parse (exchange_sync rt key env)))))))"
    by (intro quiet_seq quiet_emit quiet_pure quiet_except_parse quiet_exchange_sync)
       (simp_all add: landmark_simps)
  show ?thesis
    unfolding attempt_sync_def landmarks_except_sync
    using q by (simp add: seq_emit quiet_def landmarks_Cons landmark_simps)
qed

lemma sends_except_sync: "sends (fst (except_sync m)) = sends (fst m)"
  by (auto simp: except_sync_def sends_append split: prod.splits sum.splits)

lemma sends_except_parse: "sends (fst (except_parse m)) = sends (fst m)"
  by (auto simp: except_parse_def sends_append split: prod.splits sum.splits)

lemma silent_status_reply: "silent (status_reply data)"
  unfolding status_reply_def
  by (intro silent_seq silent_emit silent_ret silent_pure silent_if) simp_all

lemma sends_exchange_sync:
  "sends (fst (exchange_sync rt key env)) = []
   \<or> sends (fst (exchange_sync rt key env)) = [query_request key]"
  unfolding exchange_sync_def
  by (auto simp: sends_seq_emit sends_seq_pure ret_def silent_status_reply [unfolded silent_def]
      split: prod.splits sum.splits)

lemma sends_attempt_sync:
  "sends (fst (attempt_sync rt key uds n env i))
   = (if connect_error env = None
      then list_request
           # (case write_result (sendall_errors env) 0 of
                Inl e \<Rightarrow> []
              | Inr u \<Rightarrow> sends (fst (exchange_sync rt key env)))
      else [])"
  unfolding attempt_sync_def
  by (auto simp: sends_except_sync sends_except_parse sends_seq_emit sends_seq_pure
      split: option.splits sum.splits)

lemma attempt_sync_refused:
  "connect_error env = Some e \<Longrightarrow>
   attempt_sync rt key uds n env i
   = ([Log DEBUG ''Attempting to connect to Unix Domain Socket: {klipper_uds} (Attempt {attempt + 1}/{max_attempts})''
        [AStr uds, ANat (i + 1), ANat n],
       Connect uds, Log ERROR ''Error: {e}'' [AExn NameError]], Inr False)"
  by (simp add: attempt_sync_def seq_emit seq_pure except_sync_def)

lemma exchange_sync_no_result:
  assumes "fst (receive_response_sync (recv_script env)) = Inr s"
    and "json_loads rt s = Some data"
    and "no_result data"
  shows "sends (fst (except_parse (exchange_sync rt key env))) = []"
    and "snd (except_sync (seq (emit ev) (\<lambda>_. except_parse (exchange_sync rt key env)))) = Inr False"
  using assms
  by (cases "receive_response_sync (recv_script env)"; cases data;
      auto simp: exchange_sync_def seq_emit_case seq_pure ret_def loads_def no_result_def
        py_contains_def py_getitem_def then_e_def except_parse_def except_sync_def
        split: prod.splits)+

lemma attempt_sync_no_result:
  assumes "connect_error env = None"
    and "write_result (sendall_errors env) 0 = Inr ()"
    and "fst (receive_response_sync (recv_script env)) = Inr s"
    and "json_loads rt s = Some data"
    and "no_result data"
  shows "sends (fst (attempt_sync rt key uds n env i)) = [list_request]"
    and "snd (attempt_sync rt key uds n env i) = Inr False"
proof -
  show "sends (fst (attempt_sync rt key uds n env i)) = [list_request]"
    using exchange_sync_no_result(1) [OF assms(3,4,5), where key = key] assms(1,2)
    by (simp add: sends_attempt_sync sends_except_parse)
  have "snd (except_sync (seq (emit ev) (\<lambda>_. except_parse (exchange_sync rt key env)))) = Inr False"
    for ev
    by (rule exchange_sync_no_result(2) [OF assms(3,4,5)])
  then have "snd (except_sync (ev # evs, snd (except_parse (exchange_sync rt key env)))) = Inr False"
    for ev evs
    by (auto simp: seq_emit except_sync_def split: sum.splits if_splits)
  then show "snd (attempt_sync rt key uds n env i) = Inr False"
    using assms(1,2)
    by (simp add: attempt_sync_def seq_emit_case seq_pure split: prod.splits)
       (metis snd_conv)
qed

lemma attempt_sync_object_without_result:
  assumes "connect_error env = None"
    and "write_result (sendall_errors env) 0 = Inr ()"
    and "fst (receive_response_sync (recv_script env)) = Inr s"
    and "json_loads rt s = Some (JObj kvs)"
    and "''result'' \<notin> set (map fst kvs)"
  shows "attempt_sync rt key uds n env i
         = ([attempting uds n i, Connect uds, Log DEBUG ''Connected to Unix Domain Socket'' [],
             Send list_request, Log DEBUG ''Sent JSON-RPC request for objects/list'' [],
             Log DEBUG ''Received response: {response}'' [AStr s],
             Log WARNING ''API request failed. Retrying...'' []], Inr False)"
  using assms
  by (cases "receive_response_sync (recv_script env)")
     (simp add: attempt_sync_def exchange_sync_def seq_emit_case seq_pure ret_def loads_def
       py_contains_def except_parse_def except_sync_def attempting_def split: prod.splits)

lemma attempt_sync_query_without_result:
  assumes "connect_error env = None"
    and "write_result (sendall_errors env) 0 = Inr ()"
    and "write_result (sendall_errors env) 1 = Inr ()"
    and "receive_response_sync (recv_script env) = (Inr s1, rs1)"
    and "json_loads rt s1 = Some (JObj kvs1)"
    and "map_of kvs1 ''result'' = Some (JObj rkvs)"
    and "map_of rkvs ''objects'' = Some objects"
    and "fst (receive_response_sync rs1) = Inr s2"
    and "json_loads rt s2 = Some (JObj kvs2)"
    and "''result'' \<notin> set (map fst kvs2)"
  shows "attempt_sync rt key uds n env i
         = ([attempting uds n i, Connect uds, Log DEBUG ''Connected to Unix Domain Socket'' [],
             Send list_request, Log DEBUG ''Sent JSON-RPC request for objects/list'' [],
             Log DEBUG ''Received response: {response}'' [AStr s1],
             Log DEBUG ''API request succeeded'' [],
             Print ''Available objects: {objects}'' [AJson objects],
             Send (query_request key),
             Log DEBUG ''Sent JSON-RPC request for toolhead and print_stats'' [],
             Log DEBUG ''Received response: {response}'' [AStr s2],
             Log ERROR ''Error: Failed to retrieve printer status.'' []], Inr False)"
proof -
  have k: "''result'' \<in> fst ` set kvs1"
    using assms(6) by (metis map_of_eq_None_iff option.distinct(1))
  show ?thesis
    using assms k
    by (cases "receive_response_sync rs1")
       (simp add: attempt_sync_def exchange_sync_def status_reply_def seq_emit_case seq_pure ret_def
         loads_def py_contains_def py_getitem_def then_e_def except_parse_def except_sync_def
         attempting_def split: prod.splits)
qed

lemma attempt_sync_closing:
  "snd (attempt_sync example_rt None ''/tmp/klippy_uds'' 3 (closing_socks i) i) = Inr False"
  by (simp add: attempt_sync_def seq_emit seq_pure closing_socks_def closing_sock_def
      write_result_def exchange_sync_def receive_response_sync_def strip_etx_def loads_def
      example_rt_def example_loads_def list_reply_text_def notification_text_def
      error_reply_text_def status_text_def result_and_error_text_def error_list_text_def
      foreign_reply_text_def except_parse_def except_sync_def)

subsection \<open>One attempt of the cooperative client\<close>

lemma landmarks_read_loop: "landmarks d (fst (read_loop rs acc)) = []"
  by (induction rs acc rule: read_loop.induct)
     (auto simp: landmarks_Cons landmarks_Nil landmark_simps failed_msg_def)

lemma quiet_receive_async: "quiet d (receive_response_async rs)"
  using landmarks_read_loop [of d rs "[]"]
  by (auto simp: quiet_def receive_response_async_def split: prod.splits sum.splits)

lemma quiet_print_printer_status: "quiet d (print_printer_status rt status)"
  unfolding print_printer_status_def
  by (intro quiet_seq quiet_emit quiet_pure) (simp add: landmark_simps)

lemma quiet_update_step: "d \<noteq> 1 \<Longrightarrow> quiet d (update_step rt rs)"
  unfolding update_step_def
  by (intro quiet_seq quiet_emit quiet_ret quiet_pure quiet_if quiet_print_printer_status
        quiet_receive_async quiet_case_prod)
     (simp add: landmark_simps)

lemma landmarks_updates_loop: "d \<noteq> 1 \<Longrightarrow> landmarks d (fst (updates_loop rt fuel rs)) = []"
proof (induction fuel arbitrary: rs)
  case 0
  then show ?case by (simp add: landmarks_Nil)
next
  case (Suc fuel)
  obtain evs r where st: "update_step rt rs = (evs, r)"
    by (metis prod.exhaust)
  have q: "landmarks d evs = []"
    using quiet_update_step [OF Suc.prems, of rt rs] st by (simp add: quiet_def)
  show ?case
  proof (cases r)
    case (Inl e)
    then show ?thesis using q st
      by (simp add: landmarks_append landmarks_Cons landmarks_Nil landmark_simps failed_msg_def)
  next
    case (Inr rs')
    then show ?thesis using q st Suc.IH [OF Suc.prems, of rs']
      by (cases "updates_loop rt fuel rs'") (simp add: landmarks_append)
  qed
qed

lemma quiet_finish: "d \<noteq> 1 \<Longrightarrow> quiet d (finish (updates_loop rt fuel rs))"
  by (simp add: quiet_def finish_def landmarks_updates_loop)

lemma quiet_except_async: "quiet d m \<Longrightarrow> quiet d (except_async m)"
  by (auto simp: quiet_def except_async_def landmarks_append landmarks_Cons landmarks_Nil
      landmark_simps failed_msg_def split: prod.splits sum.splits)

lemma landmarks_except_async: "landmarks d (fst (except_async m)) = landmarks d (fst m)"
  by (auto simp: except_async_def landmarks_append landmarks_Cons landmarks_Nil
      landmark_simps failed_msg_def split: prod.splits sum.splits)

lemma landmarks_attempt_async:
  assumes "d \<noteq> 1"
  shows "landmarks d (fst (attempt_async rt uds n fuel env i)) = [Connect uds]"
proof -
  have "landmarks d (fst (handshake_async rt uds n fuel env i)) = [Connect uds]"
    unfolding handshake_async_def
    apply (subst landmarks_seq_emit_skip)
     apply (simp add: landmark_simps)
    apply (rule landmarks_seq_emit_take)
     apply (simp add: landmark_simps)
    apply (intro quiet_seq quiet_emit quiet_emit_all quiet_ret quiet_pure quiet_if
        quiet_receive_async quiet_case_prod quiet_finish assms)
    apply (auto simp: landmark_simps failed_msg_def)
    done
  then show ?thesis
    by (simp add: attempt_async_def landmarks_except_async)
qed

lemma sends_read_loop: "sends (fst (read_loop rs acc)) = []"
  by (induction rs acc rule: read_loop.induct) auto

lemma silent_receive_async: "silent (receive_response_async rs)"
  using sends_read_loop [of rs "[]"]
  by (auto simp: silent_def receive_response_async_def split: prod.splits sum.splits)

lemma silent_print_printer_status: "silent (print_printer_status rt status)"
  unfolding print_printer_status_def
  by (intro silent_seq silent_emit silent_pure) simp

lemma silent_update_step: "silent (update_step rt rs)"
  unfolding update_step_def
  by (intro silent_seq silent_emit silent_ret silent_pure silent_if silent_print_printer_status
        silent_receive_async silent_case_prod)
     simp

lemma sends_updates_loop: "sends (fst (updates_loop rt fuel rs)) = []"
proof (induction fuel arbitrary: rs)
  case 0
  then show ?case by simp
next
  case (Suc fuel)
  obtain evs r where st: "update_step rt rs = (evs, r)"
    by (metis prod.exhaust)
  have q: "sends evs = []"
    using silent_update_step [of rt rs] st by (simp add: silent_def)
  show ?case
  proof (cases r)
    case (Inl e)
    then show ?thesis using q st by (simp add: sends_append)
  next
    case (Inr rs')
    then show ?thesis using q st Suc.IH [of rs']
      by (cases "updates_loop rt fuel rs'") (simp add: sends_append)
  qed
qed

lemma silent_finish: "silent (finish (updates_loop rt fuel rs))"
  by (simp add: silent_def finish_def sends_updates_loop)

lemma sends_except_async: "sends (fst (except_async m)) = sends (fst m)"
  by (auto simp: except_async_def sends_append split: prod.splits sum.splits)

lemma sends_handshake_tail:
  "sends (fst (seq (pure w0) (\<lambda>_.
     seq (receive_response_async rs) (\<lambda>(response, rs1).
     seq (emit (Log DEBUG ''Received response: {response}'' [AStr response])) (\<lambda>_.
       if response \<noteq> [] then
         seq (pure (loads rt response)) (\<lambda>data.
         seq (emit (Log DEBUG ''Parsed response: {data}'' [AJson data])) (\<lambda>_.
         seq (pure (py_contains ''result'' data)) (\<lambda>has_result.
           if has_result then
             seq (emit (Log DEBUG ''API request succeeded'' [])) (\<lambda>_.
             seq (pure (then_e (py_getitem data ''result'') (\<lambda>r. py_getitem r ''objects''))) (\<lambda>objects.
             seq (emit (Print ''Available objects:'' [])) (\<lambda>_.
             seq (pure (py_iter objects)) (\<lambda>objs.
             seq (emit_all (map (\<lambda>obj. Print ''  - {obj}'' [AJson obj]) objs)) (\<lambda>_.
             seq (emit (Print ''Time taken to get initial response: {end_time - start_time:.6f} seconds'' [])) (\<lambda>_.
             seq (emit (Send subscribe_request)) (\<lambda>_.
             seq (pure w1) (\<lambda>_.
             seq (emit (Log DEBUG ''Sent JSON-RPC request to subscribe to printer objects'' [])) (\<lambda>_.
             finish (updates_loop rt fuel rs1))))))))))
           else
             seq (pure (py_get data ''error'' (JStr ''Unknown error''))) (\<lambda>err.
             seq (emit (Log ERROR ''Error in objects/list: {data.get('error', 'Unknown error')}''
                          [AJson err])) (\<lambda>_.
             ret Done)))))
       else
         seq (emit (Log ERROR ''No response received'' [])) (\<lambda>_.
         ret Done))))))
   \<in> {[], [subscribe_request]}"
proof -
  have prints: "sends (map (\<lambda>obj. Print ''  - {obj}'' [AJson obj]) objs) = []" for objs
    by (induction objs) auto
  have r: "sends (fst (receive_response_async rs)) = []"
    using silent_receive_async [of rs] by (simp add: silent_def)
  show ?thesis
    by (cases "receive_response_async rs")
       (use r in \<open>auto simp: seq_pair sends_seq_emit sends_seq_pure sends_append ret_def prints
         sends_seq_emit_all finish_def sends_updates_loop split: sum.splits\<close>)
qed

lemma sends_attempt_async:
  "sends (fst (attempt_async rt uds n fuel env i))
   \<in> (if open_error env = None
      then {[list_request], [list_request, subscribe_request]} else {[]})"
  using sends_handshake_tail [of "write_result (drain_errors env) 0" "read_script env" rt
      "write_result (drain_errors env) 1" fuel]
  unfolding attempt_async_def handshake_async_def
  by (auto simp: sends_except_async sends_seq_emit sends_seq_pure split: option.splits)

lemma attempt_async_refused:
  "open_error env = Some e \<Longrightarrow>
   attempt_async rt uds n fuel env i
   = ([Log DEBUG ''Attempting to connect to Unix Domain Socket: {klipper_uds} (Attempt {attempt + 1}/{max_attempts})''
        [AStr uds, ANat (i + 1), ANat n],
       Connect uds, Log ERROR ''Error: {e}'' [AExn (sock_exn e)]], Inr Done)"
  by (simp add: attempt_async_def handshake_async_def seq_emit seq_pure except_async_def sock_exn_def
      split: sock_error.splits)

lemma attempt_async_object_without_result:
  assumes "open_error env = None"
    and "write_result (drain_errors env) 0 = Inr ()"
    and "receive_response_async (read_script env) = (evs, Inr (s, rs1))"
    and "s \<noteq> []"
    and "json_loads rt s = Some (JObj kvs)"
    and "''result'' \<notin> set (map fst kvs)"
  shows "attempt_async rt uds n fuel env i
         = ([attempting uds n i, Connect uds, Log DEBUG ''Connected to Unix Domain Socket'' [],
             Send list_request] @ evs @
            [Log DEBUG ''Received response: {response}'' [AStr s],
             Log DEBUG ''Parsed response: {data}'' [AJson (JObj kvs)],
             Log ERROR ''Error in objects/list: {data.get('error', 'Unknown error')}''
               [AJson (case map_of kvs ''error'' of Some v \<Rightarrow> v | None \<Rightarrow> JStr ''Unknown error'')]],
            Inr Done)"
  using assms
  by (simp add: attempt_async_def handshake_async_def seq_emit_case seq_pure seq_pair ret_def
      loads_def py_contains_def py_get_def except_async_def attempting_def
      split: prod.splits option.splits)

lemma attempt_async_no_result:
  assumes "open_error env = None"
    and "write_result (drain_errors env) 0 = Inr ()"
    and "snd (receive_response_async (read_script env)) = Inr (s, rs1)"
    and "json_loads rt s = Some data"
    and "no_result data"
  shows "sends (fst (attempt_async rt uds n fuel env i)) = [list_request]"
    and "snd (attempt_async rt uds n fuel env i) = Inr Done"
  using assms silent_receive_async [of "read_script env"]
  by (cases "receive_response_async (read_script env)"; cases data;
      auto simp: attempt_async_def handshake_async_def seq_emit_case seq_pure seq_pair ret_def
        loads_def py_contains_def py_get_def py_getitem_def then_e_def except_async_def
        no_result_def silent_def sends_append
        split: prod.splits option.splits)+

lemma attempt_async_result:
  assumes "open_error env = None"
    and "write_result (drain_errors env) 0 = Inr ()"
    and "write_result (drain_errors env) 1 = Inr ()"
    and "receive_response_async (read_script env) = (evs, Inr (s, rs1))"
    and "s \<noteq> []"
    and "json_loads rt s = Some (JObj kvs)"
    and "map_of kvs ''result'' = Some (JObj rkvs)"
    and "map_of rkvs ''objects'' = Some (JArr objs)"
  shows "attempt_async rt uds n fuel env i
         = ([attempting uds n i, Connect uds, Log DEBUG ''Connected to Unix Domain Socket'' [],
             Send list_request] @ evs @
            [Log DEBUG ''Received response: {response}'' [AStr s],
             Log DEBUG ''Parsed response: {data}'' [AJson (JObj kvs)],
             Log DEBUG ''API request succeeded'' [],
             Print ''Available objects:'' []]
            @ map (\<lambda>obj. Print ''  - {obj}'' [AJson obj]) objs @
            [Print ''Time taken to get initial response: {end_time - start_time:.6f} seconds'' [],
             Send subscribe_request,
             Log DEBUG ''Sent JSON-RPC request to subscribe to printer objects'' []]
            @ fst (updates_loop rt fuel rs1),
            Inr (snd (updates_loop rt fuel rs1)))"
proof -
  have k: "''result'' \<in> fst ` set kvs"
    using assms(7) by (metis map_of_eq_None_iff option.distinct(1))
  show ?thesis
    using assms k
    by (simp add: attempt_async_def handshake_async_def seq_emit_case seq_pure seq_pair ret_def
        loads_def py_contains_def py_getitem_def py_iter_def then_e_def except_async_def
        attempting_def seq_emit_all finish_def split: prod.splits)
qed

lemma attempt_async_closing:
  "snd (attempt_async example_rt ''/tmp/klippy_uds'' 3 fuel (closing_streams i) i) = Inr Done"
  by (simp add: attempt_async_def handshake_async_def seq_emit seq_pure seq_ret closing_streams_def
      closing_stream_def write_result_def receive_response_async_def first_part_def seq_pair
      except_async_def ret_def)

subsection \<open>The update loop\<close>

lemma coordinate_default:
  "map_of tkvs ''position'' = None \<Longrightarrow> i < 3 \<Longrightarrow> coordinate rt (JObj tkvs) i = Inr ''0.00''"
  by (auto simp: coordinate_def py_get_def then_e_def py_index_def format_2f_def string_of_nat_0
      nth_Cons')






subsection \<open>The attempt loops\<close>

lemma attempts_sync_fail:
  "\<forall>i\<in>set is. snd (attempt_sync rt key uds n (envs i) i) = Inr False \<Longrightarrow>
   attempts_sync rt key uds n d envs is
   = (concat (map (\<lambda>i. fst (attempt_sync rt key uds n (envs i) i) @ [Sleep d]) is) @ [failed_msg],
      Return)"
proof (induction "is")
  case Nil
  then show ?case by simp
next
  case (Cons i "is")
  then show ?case
    by (cases "attempt_sync rt key uds n (envs i) i") simp
qed

lemma attempts_sync_Cons_fail:
  "snd (attempt_sync rt key uds n (envs i) i) = Inr False \<Longrightarrow>
   attempts_sync rt key uds n d envs (i # is)
   = (fst (attempt_sync rt key uds n (envs i) i) @ Sleep d
        # fst (attempts_sync rt key uds n d envs is),
      snd (attempts_sync rt key uds n d envs is))"
  by (cases "attempt_sync rt key uds n (envs i) i") (simp split: prod.splits)

lemma landmarks_passes_sync:
  "landmarks d (concat (map (\<lambda>i. fst (attempt_sync rt key uds n (envs i) i) @ [Sleep d]) is))
   = concat (replicate (length is) [Connect uds, Sleep d])"
  by (induction "is")
     (simp_all add: landmarks_Nil landmarks_append landmarks_Cons landmark_simps landmarks_attempt_sync)

lemma attempts_async_done:
  "\<forall>i\<in>set is. snd (attempt_async rt uds n fuel (envs i) i) = Inr Done \<Longrightarrow>
   attempts_async rt uds n d fuel envs is
   = (concat (map (\<lambda>i. fst (attempt_async rt uds n fuel (envs i) i) @ [Sleep d]) is) @ [failed_msg],
      Return)"
proof (induction "is")
  case Nil
  then show ?case by simp
next
  case (Cons i "is")
  then show ?case
    by (cases "attempt_async rt uds n fuel (envs i) i") simp
qed

lemma attempts_async_Cons_done:
  "snd (attempt_async rt uds n fuel (envs i) i) = Inr Done \<Longrightarrow>
   attempts_async rt uds n d fuel envs (i # is)
   = (fst (attempt_async rt uds n fuel (envs i) i) @ Sleep d
        # fst (attempts_async rt uds n d fuel envs is),
      snd (attempts_async rt uds n d fuel envs is))"
  by (cases "attempt_async rt uds n fuel (envs i) i") (simp split: prod.splits)


lemma landmarks_passes_async:
  "d \<noteq> 1 \<Longrightarrow>
   landmarks d (concat (map (\<lambda>i. fst (attempt_async rt uds n fuel (envs i) i) @ [Sleep d]) is))
   = concat (replicate (length is) [Connect uds, Sleep d])"
  by (induction "is")
     (simp_all add: landmarks_Nil landmarks_append landmarks_Cons landmark_simps landmarks_attempt_async)

lemma landmarks_found_sync: "landmarks d (found_events_sync res) = [resolution_done]"
  by (auto simp: found_events_sync_def landmarks_def landmark_simps landmark_def resolution_done_def
      failed_msg_def filter_empty_conv split: prod.splits)

lemma landmarks_found_async: "landmarks d (found_events_async res) = [resolution_done]"
  by (auto simp: found_events_async_def landmarks_def landmark_simps landmark_def resolution_done_def
      failed_msg_def filter_empty_conv split: prod.splits)

lemma landmarks_systemd: "landmarks d (systemd_events res) = []"
  by (auto simp: systemd_events_def landmarks_def landmark_simps
      filter_empty_conv split: prod.splits option.splits)

lemma get_printer_status_sync_Some:
  "klipper_uds res = Some uds \<Longrightarrow>
   get_printer_status_sync rt res envs
   = (found_events_sync res @ systemd_events res
        @ fst (attempts_sync rt (klipper_api_key res) uds 3 2 envs [0..<3]),
      snd (attempts_sync rt (klipper_api_key res) uds 3 2 envs [0..<3]))"
  by (simp add: get_printer_status_sync_def split: prod.splits)

lemma get_printer_status_async_Some:
  "klipper_uds res = Some uds \<Longrightarrow>
   get_printer_status_async rt res fuel envs
   = (found_events_async res @ fst (attempts_async rt uds 3 2 fuel envs [0..<3]),
      snd (attempts_async rt uds 3 2 fuel envs [0..<3]))"
  by (simp add: get_printer_status_async_def split: prod.splits)

lemma refused_loops:
  assumes "\<forall>i<n. connect_error (senvs i) \<noteq> None"
    and "\<forall>i<n. open_error (aenvs i) \<noteq> None"
  shows "landmarks d (fst (attempts_sync rt key uds n d senvs [0..<n]))
           = concat (replicate n [Connect uds, Sleep d]) @ [failed_msg]
         \<and> snd (attempts_sync rt key uds n d senvs [0..<n]) = Return
         \<and> landmarks d (fst (attempts_async rt uds n d fuel aenvs [0..<n]))
           = concat (replicate n [Connect uds, Sleep d]) @ [failed_msg]
         \<and> snd (attempts_async rt uds n d fuel aenvs [0..<n]) = Return"
proof -
  have s: "\<forall>i\<in>set [0..<n]. snd (attempt_sync rt key uds n (senvs i) i) = Inr False"
    using assms(1) by (auto simp: attempt_sync_refused)
  have a: "\<forall>i\<in>set [0..<n]. attempt_async rt uds n fuel (aenvs i) i
      = ([Log DEBUG ''Attempting to connect to Unix Domain Socket: {klipper_uds} (Attempt {attempt + 1}/{max_attempts})''
        [AStr uds, ANat (i + 1), ANat n],
       Connect uds, Log ERROR ''Error: {e}'' [AExn (sock_exn (the (open_error (aenvs i))))]], Inr Done)"
    using assms(2) by (auto simp: attempt_async_refused)
  have l: "landmarks d (concat (map (\<lambda>i. fst (attempt_async rt uds n fuel (aenvs i) i) @ [Sleep d]) is))
           = concat (replicate (length is) [Connect uds, Sleep d])" if "set is \<subseteq> {0..<n}" for "is"
    using that a
    by (induction "is")
       (simp_all add: landmarks_Nil landmarks_append landmarks_Cons landmark_simps failed_msg_def)
  show ?thesis
    using attempts_sync_fail [OF s, of d] attempts_async_done [of "[0..<n]" rt uds n fuel aenvs d] a
      l [of "[0..<n]"]
    by (simp add: landmarks_append landmarks_passes_sync landmarks_failed)
qed

section \<open>The claims\<close>

subsection \<open>C1: two frames on the stream\<close>

text \<open>
  C1 does not hold as stated. When one read brings two frames, \<^verbatim>\<open>receive_response\<close> of the
  cooperative client returns the first and keeps nothing: no read is left for the next
  call, which finds the stream at its end and returns the empty string. The blocking
  client returns the two frames as one string, with the framing character between
  them.
\<close>

theorem coalesced_frames_lost:
  "receive_response_async coalesced_stream = ([], Inr (list_reply_text, []))
   \<and> receive_response_async [] = ([], Inr ([], []))
   \<and> notification_text \<noteq> []
   \<and> receive_response_sync coalesced_recvs
     = (Inr (list_reply_text @ [ETX] @ notification_text), [])"
  by code_simp

text \<open>
  C1, amended. Let \<open>v\<close> and \<open>w\<close> be texts without the framing character (valid UTF-8,
  as the output of \<^verbatim>\<open>json.dumps\<close> is). When no read holds bytes of both frames, two
  successive calls of \<^verbatim>\<open>receive_response\<close> of the cooperative client return \<open>v\<close> and
  then \<open>w\<close>, however each frame is cut into non-empty reads. However the two frames
  together are cut into non-empty reads, the first call returns \<open>v\<close>; what its last
  read held behind the framing character is not kept. \<^verbatim>\<open>receive_response\<close> of the
  blocking client returns \<open>v\<close> when the frame of \<open>v\<close> is all that arrives before the
  peer closes or a socket error (the receive timeout is one) ends its loop.
\<close>

theorem frames_in_reads_of_their_own:
  assumes "ETX \<notin> set v" and "ETX \<notin> set w" and "utf8_valid v" and "utf8_valid w"
  shows "(concat cs1 = v @ [ETX] \<and> concat cs2 = w @ [ETX] \<and> [] \<notin> set cs1 \<and> [] \<notin> set cs2 \<longrightarrow>
            receive_response_async (map Chunk (cs1 @ cs2) @ rest) = ([], Inr (v, map Chunk cs2 @ rest))
            \<and> receive_response_async (map Chunk cs2 @ rest) = ([], Inr (w, rest)))
         \<and> (concat cs = v @ [ETX] @ w @ [ETX] \<and> [] \<notin> set cs \<longrightarrow>
            (\<exists>k. receive_response_async (map Chunk cs @ rest)
                  = ([], Inr (v, map Chunk (drop k cs) @ rest))))
         \<and> (concat cs1 = v @ [ETX] \<and> [] \<notin> set cs1 \<longrightarrow>
            receive_response_sync (map Data cs1 @ Data [] # rest') = (Inr v, rest')
            \<and> receive_response_sync (map Data cs1 @ RecvError e # rest') = (Inr v, rest'))"
proof (intro conjI impI)
  assume a: "concat cs1 = v @ [ETX] \<and> concat cs2 = w @ [ETX] \<and> [] \<notin> set cs1 \<and> [] \<notin> set cs2"
  show "receive_response_async (map Chunk (cs1 @ cs2) @ rest) = ([], Inr (v, map Chunk cs2 @ rest))"
    using receive_async_frame [of cs1 v "map Chunk cs2 @ rest"] a assms by simp
  show "receive_response_async (map Chunk cs2 @ rest) = ([], Inr (w, rest))"
    using receive_async_frame [of cs2 w rest] a assms by simp
next
  assume a: "concat cs = v @ [ETX] @ w @ [ETX] \<and> [] \<notin> set cs"
  then obtain k where
    k: "read_loop (map Chunk cs @ rest) []
          = ([], Inr ([] @ concat (take k cs)), map Chunk (drop k cs) @ rest)
        \<and> first_part ([] @ concat (take k cs)) = first_part ([] @ concat cs)"
    using read_loop_first [of cs "[]" rest] by auto
  have "first_part (concat cs) = v"
    using a assms(1) first_part_frame [of v "w @ [ETX]"] by simp
  then show "\<exists>k. receive_response_async (map Chunk cs @ rest)
                  = ([], Inr (v, map Chunk (drop k cs) @ rest))"
    using k assms(3) by (intro exI [of _ k]) (simp add: receive_response_async_def)
next
  assume a: "concat cs1 = v @ [ETX] \<and> [] \<notin> set cs1"
  show "receive_response_sync (map Data cs1 @ Data [] # rest') = (Inr v, rest')"
    using a assms recv_loop_all [of cs1 "Data []" rest' "[]"]
      utf8_valid_append [OF assms(3) utf8_valid_ETX]
    by (simp add: receive_response_sync_def strip_etx_frame)
  show "receive_response_sync (map Data cs1 @ RecvError e # rest') = (Inr v, rest')"
    using a assms recv_loop_all [of cs1 "RecvError e" rest' "[]"]
      utf8_valid_append [OF assms(3) utf8_valid_ETX]
    by (simp add: receive_response_sync_def strip_etx_frame)
qed

theorem frames_in_reads_of_their_own_witness:
  "receive_response_async (map Chunk ([''[1,'', ''2]'' @ [ETX]] @ [''[3'', '']'', [ETX]]) @ [Chunk ''x''])
     = ([], Inr (''[1,2]'', map Chunk [''[3'', '']'', [ETX]] @ [Chunk ''x'']))
   \<and> receive_response_async (map Chunk [''[3'', '']'', [ETX]] @ [Chunk ''x''])
     = ([], Inr (''[3]'', [Chunk ''x'']))
   \<and> (\<exists>k. receive_response_async
            (map Chunk [''[1,'', ''2]'' @ [ETX] @ ''[3'', '']'' @ [ETX]] @ [Chunk ''x''])
          = ([], Inr (''[1,2]'',
               map Chunk (drop k [''[1,'', ''2]'' @ [ETX] @ ''[3'', '']'' @ [ETX]]) @ [Chunk ''x''])))
   \<and> receive_response_sync (map Data [''[1,'', ''2]'' @ [ETX]] @ Data [] # [])
     = (Inr ''[1,2]'', [])
   \<and> receive_response_sync (map Data [''[1,'', ''2]'' @ [ETX]] @ RecvError Timeout # [])
     = (Inr ''[1,2]'', [])"
proof -
  have h: "ETX \<notin> set ''[1,2]''" "ETX \<notin> set ''[3]''" "utf8_valid ''[1,2]''" "utf8_valid ''[3]''"
    by code_simp+
  have c: "concat [''[1,'', ''2]'' @ [ETX]] = ''[1,2]'' @ [ETX]
      \<and> concat [''[3'', '']'', [ETX]] = ''[3]'' @ [ETX]
      \<and> [] \<notin> set [''[1,'', ''2]'' @ [ETX]] \<and> [] \<notin> set [''[3'', '']'', [ETX]]"
    "concat [''[1,'', ''2]'' @ [ETX] @ ''[3'', '']'' @ [ETX]] = ''[1,2]'' @ [ETX] @ ''[3]'' @ [ETX]
      \<and> [] \<notin> set [''[1,'', ''2]'' @ [ETX] @ ''[3'', '']'' @ [ETX]]"
    "concat [''[1,'', ''2]'' @ [ETX]] = ''[1,2]'' @ [ETX] \<and> [] \<notin> set [''[1,'', ''2]'' @ [ETX]]"
    by simp_all
  show ?thesis
    using frames_in_reads_of_their_own [OF h, where ?cs1.0 = "[''[1,'', ''2]'' @ [ETX]]"
        and ?cs2.0 = "[''[3'', '']'', [ETX]]" and rest = "[Chunk ''x'']"
        and cs = "[''[1,'', ''2]'' @ [ETX] @ ''[3'', '']'' @ [ETX]]"
        and rest' = "[]" and e = Timeout] c
    by blast
qed

subsection \<open>C2: a notification before the reply\<close>

text \<open>
  C2 does not hold as stated. With a notification in front of the response to
  \<^verbatim>\<open>objects/list\<close>, the cooperative client takes the notification for the reply, logs
  the error line of \<^verbatim>\<open>objects/list\<close> and ends the attempt; the response is never read.
  The blocking client reads both frames as one text, which \<^verbatim>\<open>json.loads\<close> rejects.
\<close>

theorem first_frame_not_correlated:
  "sends (fst (attempt_async example_rt ''/tmp/klippy_uds'' 3 5 notifying_stream 0)) = [list_request]
   \<and> last (fst (attempt_async example_rt ''/tmp/klippy_uds'' 3 5 notifying_stream 0))
     = Log ERROR ''Error in objects/list: {data.get('error', 'Unknown error')}''
         [AJson (JStr ''Unknown error'')]
   \<and> snd (attempt_async example_rt ''/tmp/klippy_uds'' 3 5 notifying_stream 0) = Inr Done
   \<and> sends (fst (attempt_sync example_rt None ''/tmp/klippy_uds'' 3 notifying_sock 0)) = [list_request]
   \<and> last (fst (attempt_sync example_rt None ''/tmp/klippy_uds'' 3 notifying_sock 0))
     = Log ERROR ''Error: Unable to parse response: {e}'' [AExn JSONDecodeError]
   \<and> snd (attempt_sync example_rt None ''/tmp/klippy_uds'' 3 notifying_sock 0) = Inr False"
  by code_simp

text \<open>
  C2, amended. Neither client compares ids. The cooperative client takes the first frame
  it reads after the request for the reply: if that frame is an object without a
  \<^verbatim>\<open>result\<close> key (a notification is one), the attempt ends with the error line of
  \<^verbatim>\<open>objects/list\<close>, and the reads behind the frame are not touched; if it is an object
  whose \<^verbatim>\<open>result\<close> lists the objects, it is accepted whatever id it carries, the
  subscription is sent and the update loop starts on the reads behind it. The blocking
  client takes the whole text it has received for the reply: an object without a
  \<^verbatim>\<open>result\<close> key ends the attempt with the warning of a failed API request.
\<close>

theorem first_frame_is_the_reply:
  "(open_error aenv = None \<and> write_result (drain_errors aenv) 0 = Inr ()
      \<and> receive_response_async (read_script aenv) = (evs, Inr (s, rs1))
      \<and> s \<noteq> [] \<and> json_loads rt s = Some (JObj kvs)
      \<and> ''result'' \<notin> set (map fst kvs) \<longrightarrow>
        attempt_async rt uds n fuel aenv i
        = ([attempting uds n i, Connect uds, Log DEBUG ''Connected to Unix Domain Socket'' [],
            Send list_request] @ evs @
           [Log DEBUG ''Received response: {response}'' [AStr s],
            Log DEBUG ''Parsed response: {data}'' [AJson (JObj kvs)],
            Log ERROR ''Error in objects/list: {data.get('error', 'Unknown error')}''
              [AJson (case map_of kvs ''error'' of Some v \<Rightarrow> v | None \<Rightarrow> JStr ''Unknown error'')]],
           Inr Done))
   \<and> (open_error aenv = None \<and> write_result (drain_errors aenv) 0 = Inr ()
      \<and> write_result (drain_errors aenv) 1 = Inr ()
      \<and> receive_response_async (read_script aenv) = (evs, Inr (s, rs1))
      \<and> s \<noteq> [] \<and> json_loads rt s = Some (JObj kvs)
      \<and> map_of kvs ''result'' = Some (JObj rkvs) \<and> map_of rkvs ''objects'' = Some (JArr objs) \<longrightarrow>
        attempt_async rt uds n fuel aenv i
        = ([attempting uds n i, Connect uds, Log DEBUG ''Connected to Unix Domain Socket'' [],
            Send list_request] @ evs @
           [Log DEBUG ''Received response: {response}'' [AStr s],
            Log DEBUG ''Parsed response: {data}'' [AJson (JObj kvs)],
            Log DEBUG ''API request succeeded'' [],
            Print ''Available objects:'' []]
           @ map (\<lambda>obj. Print ''  - {obj}'' [AJson obj]) objs @
           [Print ''Time taken to get initial response: {end_time - start_time:.6f} seconds'' [],
            Send subscribe_request,
            Log DEBUG ''Sent JSON-RPC request to subscribe to printer objects'' []]
           @ fst (updates_loop rt fuel rs1),
           Inr (snd (updates_loop rt fuel rs1))))
   \<and> (connect_error senv = None \<and> write_result (sendall_errors senv) 0 = Inr ()
      \<and> fst (receive_response_sync (recv_script senv)) = Inr s'
      \<and> json_loads rt s' = Some (JObj kvs')
      \<and> ''result'' \<notin> set (map fst kvs') \<longrightarrow>
        attempt_sync rt key uds n senv i
        = ([attempting uds n i, Connect uds, Log DEBUG ''Connected to Unix Domain Socket'' [],
            Send list_request, Log DEBUG ''Sent JSON-RPC request for objects/list'' [],
            Log DEBUG ''Received response: {response}'' [AStr s'],
            Log WARNING ''API request failed. Retrying...'' []], Inr False))"
  using attempt_async_object_without_result [of aenv evs s rs1 rt kvs uds n fuel i]
    attempt_async_result [of aenv evs s rs1 rt kvs rkvs objs uds n fuel i]
    attempt_sync_object_without_result [of senv s' rt kvs' key uds n i]
  by (intro conjI impI) (elim conjE, simp)+

theorem first_frame_is_the_reply_witness:
  "attempt_async example_rt ''/tmp/klippy_uds'' 3 5 notifying_stream 0
     = ([attempting ''/tmp/klippy_uds'' 3 0, Connect ''/tmp/klippy_uds'',
         Log DEBUG ''Connected to Unix Domain Socket'' [],
         Send list_request,
         Log DEBUG ''Received response: {response}'' [AStr notification_text],
         Log DEBUG ''Parsed response: {data}'' [AJson notification],
         Log ERROR ''Error in objects/list: {data.get('error', 'Unknown error')}''
           [AJson (JStr ''Unknown error'')]],
        Inr Done)
   \<and> attempt_async example_rt ''/tmp/klippy_uds'' 3 0 foreign_stream 0
     = ([attempting ''/tmp/klippy_uds'' 3 0, Connect ''/tmp/klippy_uds'',
         Log DEBUG ''Connected to Unix Domain Socket'' [],
         Send list_request,
         Log DEBUG ''Received response: {response}'' [AStr foreign_reply_text],
         Log DEBUG ''Parsed response: {data}'' [AJson foreign_reply],
         Log DEBUG ''API request succeeded'' [],
         Print ''Available objects:'' [],
         Print ''  - {obj}'' [AJson (JStr ''toolhead'')],
         Print ''Time taken to get initial response: {end_time - start_time:.6f} seconds'' [],
         Send subscribe_request,
         Log DEBUG ''Sent JSON-RPC request to subscribe to printer objects'' []],
        Inr Running)
   \<and> attempt_sync example_rt None ''/tmp/klippy_uds'' 3 notified_sock 0
     = ([attempting ''/tmp/klippy_uds'' 3 0, Connect ''/tmp/klippy_uds'',
         Log DEBUG ''Connected to Unix Domain Socket'' [],
         Send list_request, Log DEBUG ''Sent JSON-RPC request for objects/list'' [],
         Log DEBUG ''Received response: {response}'' [AStr notification_text],
         Log WARNING ''API request failed. Retrying...'' []], Inr False)"
proof -
  have a: "open_error notifying_stream = None
      \<and> write_result (drain_errors notifying_stream) 0 = Inr ()
      \<and> receive_response_async (read_script notifying_stream)
          = ([], Inr (notification_text, [Chunk (list_reply_text @ [ETX])]))
      \<and> notification_text \<noteq> []
      \<and> json_loads example_rt notification_text
          = Some (JObj [(''method'', JStr ''notify_status_update''),
               (''params'', JObj [(''status'',
                  JObj [(''toolhead'', JObj [(''position'', JArr [JInt 1, JInt 2, JInt 3])])])])])
      \<and> ''result'' \<notin> set (map fst [(''method'', JStr ''notify_status_update''),
               (''params'', JObj [(''status'',
                  JObj [(''toolhead'', JObj [(''position'', JArr [JInt 1, JInt 2, JInt 3])])])])])"
    by code_simp
  have b: "open_error foreign_stream = None
      \<and> write_result (drain_errors foreign_stream) 0 = Inr ()
      \<and> write_result (drain_errors foreign_stream) 1 = Inr ()
      \<and> receive_response_async (read_script foreign_stream) = ([], Inr (foreign_reply_text, []))
      \<and> foreign_reply_text \<noteq> []
      \<and> json_loads example_rt foreign_reply_text
          = Some (JObj [(''id'', JInt 7), (''result'', JObj [(''objects'', JArr [JStr ''toolhead''])])])
      \<and> map_of [(''id'', JInt 7), (''result'', JObj [(''objects'', JArr [JStr ''toolhead''])])] ''result''
          = Some (JObj [(''objects'', JArr [JStr ''toolhead''])])
      \<and> map_of [(''objects'', JArr [JStr ''toolhead''])] ''objects'' = Some (JArr [JStr ''toolhead''])"
    by code_simp
  have c: "connect_error notified_sock = None
      \<and> write_result (sendall_errors notified_sock) 0 = Inr ()
      \<and> fst (receive_response_sync (recv_script notified_sock)) = Inr notification_text
      \<and> json_loads example_rt notification_text
          = Some (JObj [(''method'', JStr ''notify_status_update''),
               (''params'', JObj [(''status'',
                  JObj [(''toolhead'', JObj [(''position'', JArr [JInt 1, JInt 2, JInt 3])])])])])
      \<and> ''result'' \<notin> set (map fst [(''method'', JStr ''notify_status_update''),
               (''params'', JObj [(''status'',
                  JObj [(''toolhead'', JObj [(''position'', JArr [JInt 1, JInt 2, JInt 3])])])])])"
    by code_simp
  have 1: "attempt_async example_rt ''/tmp/klippy_uds'' 3 5 notifying_stream 0
     = ([attempting ''/tmp/klippy_uds'' 3 0, Connect ''/tmp/klippy_uds'',
         Log DEBUG ''Connected to Unix Domain Socket'' [],
         Send list_request] @ [] @
        [Log DEBUG ''Received response: {response}'' [AStr notification_text],
         Log DEBUG ''Parsed response: {data}'' [AJson notification],
         Log ERROR ''Error in objects/list: {data.get('error', 'Unknown error')}''
           [AJson (JStr ''Unknown error'')]],
        Inr Done)"
    using first_frame_is_the_reply [THEN conjunct1, rule_format,
        where aenv = notifying_stream and rt = example_rt and n = 3 and i = 0 and fuel = 5
        and uds = "''/tmp/klippy_uds''" and s = notification_text and evs = "[]"] a
    by (simp add: notification_def)
  have 2: "attempt_async example_rt ''/tmp/klippy_uds'' 3 0 foreign_stream 0
     = ([attempting ''/tmp/klippy_uds'' 3 0, Connect ''/tmp/klippy_uds'',
         Log DEBUG ''Connected to Unix Domain Socket'' [],
         Send list_request] @ [] @
        [Log DEBUG ''Received response: {response}'' [AStr foreign_reply_text],
         Log DEBUG ''Parsed response: {data}'' [AJson foreign_reply],
         Log DEBUG ''API request succeeded'' [],
         Print ''Available objects:'' []]
        @ map (\<lambda>obj. Print ''  - {obj}'' [AJson obj]) [JStr ''toolhead''] @
        [Print ''Time taken to get initial response: {end_time - start_time:.6f} seconds'' [],
         Send subscribe_request,
         Log DEBUG ''Sent JSON-RPC request to subscribe to printer objects'' []]
        @ fst (updates_loop example_rt 0 []),
        Inr (snd (updates_loop example_rt 0 [])))"
    using first_frame_is_the_reply [THEN conjunct2, THEN conjunct1, rule_format,
        where aenv = foreign_stream and rt = example_rt and n = 3 and i = 0 and fuel = 0
        and uds = "''/tmp/klippy_uds''" and s = foreign_reply_text and evs = "[]"
        and ?rs1.0 = "[]" and objs = "[JStr ''toolhead'']"] b
    by (simp add: foreign_reply_def)
  have 3: "attempt_sync example_rt None ''/tmp/klippy_uds'' 3 notified_sock 0
     = ([attempting ''/tmp/klippy_uds'' 3 0, Connect ''/tmp/klippy_uds'',
         Log DEBUG ''Connected to Unix Domain Socket'' [],
         Send list_request, Log DEBUG ''Sent JSON-RPC request for objects/list'' [],
         Log DEBUG ''Received response: {response}'' [AStr notification_text],
         Log WARNING ''API request failed. Retrying...'' []], Inr False)"
    using first_frame_is_the_reply [THEN conjunct2, THEN conjunct2, rule_format,
        where senv = notified_sock and rt = example_rt and n = 3 and i = 0 and key = None
        and uds = "''/tmp/klippy_uds''" and s' = notification_text] c
    by simp
  show ?thesis
    using 1 2 3 by simp
qed

subsection \<open>C3: a peer that always refuses\<close>

text \<open>
  C3. When every connection attempt is refused, both clients make exactly three attempts
  on the socket path, sleep two seconds after each of them (so between any two
  consecutive ones), then log the final failure message and return: the run ends, whatever
  fuel the update loop is given. Neither script has a \<^verbatim>\<open>connect\<close> function or an exception
  \<^verbatim>\<open>ConnectionExhausted\<close>; the attempt loop of \<^verbatim>\<open>get_printer_status\<close> does this work and the
  failure is the final error line.
\<close>

theorem refused_connection_bounded:
  assumes "klipper_uds res = Some uds"
    and "\<forall>i<3. connect_error (senvs i) \<noteq> None"
    and "\<forall>i<3. open_error (aenvs i) \<noteq> None"
  shows "landmarks 2 (fst (get_printer_status_sync rt res senvs))
           = [resolution_done, Connect uds, Sleep 2, Connect uds, Sleep 2, Connect uds, Sleep 2,
              failed_msg]
         \<and> snd (get_printer_status_sync rt res senvs) = Return
         \<and> landmarks 2 (fst (get_printer_status_async rt res fuel aenvs))
           = [resolution_done, Connect uds, Sleep 2, Connect uds, Sleep 2, Connect uds, Sleep 2,
              failed_msg]
         \<and> snd (get_printer_status_async rt res fuel aenvs) = Return"
  using refused_loops [OF assms(2,3), of 2 rt "klipper_api_key res" uds fuel]
  by (simp add: get_printer_status_sync_Some [OF assms(1)] get_printer_status_async_Some [OF assms(1)]
      landmarks_append landmarks_found_sync landmarks_found_async landmarks_systemd numeral_3_eq_3)

theorem refused_connection_bounded_witness:
  "landmarks 2 (fst (get_printer_status_sync example_rt example_res (\<lambda>i. refusing_sock)))
     = [resolution_done,
        Connect ''/tmp/klippy_uds'', Sleep 2, Connect ''/tmp/klippy_uds'', Sleep 2,
        Connect ''/tmp/klippy_uds'', Sleep 2, failed_msg]
   \<and> snd (get_printer_status_sync example_rt example_res (\<lambda>i. refusing_sock)) = Return
   \<and> landmarks 2 (fst (get_printer_status_async example_rt example_res 0 (\<lambda>i. refusing_stream)))
     = [resolution_done,
        Connect ''/tmp/klippy_uds'', Sleep 2, Connect ''/tmp/klippy_uds'', Sleep 2,
        Connect ''/tmp/klippy_uds'', Sleep 2, failed_msg]
   \<and> snd (get_printer_status_async example_rt example_res 0 (\<lambda>i. refusing_stream)) = Return"
  using refused_connection_bounded [of example_res "''/tmp/klippy_uds''" "\<lambda>i. refusing_sock"
      "\<lambda>i. refusing_stream" example_rt 0]
  by (simp add: example_res_def refusing_sock_def refusing_stream_def)

subsection \<open>C4: the subscription stream\<close>




subsection \<open>C5: a reply with an error field\<close>

text \<open>
  C5 does not hold as stated. The clients test a reply for \<^verbatim>\<open>result\<close>, never for
  \<^verbatim>\<open>error\<close>: a reply to the status query that carries both is printed as the status,
  and the blocking client returns after that one attempt as after any success.
\<close>

theorem error_with_result_accepted:
  "connects (fst (get_printer_status_sync example_rt example_res erring_socks))
     = [''/tmp/klippy_uds'']
   \<and> last (fst (get_printer_status_sync example_rt example_res erring_socks))
     = Print ''Print State: {print_state}'' [AJson (JStr ''printing'')]
   \<and> snd (get_printer_status_sync example_rt example_res erring_socks) = Return
   \<and> fst (receive_response_sync (drop 2 (recv_script (erring_socks 0)))) = Inr result_and_error_text
   \<and> json_loads example_rt result_and_error_text = Some result_and_error
   \<and> py_contains ''error'' result_and_error = Inr True"
  by code_simp

text \<open>
  C5, amended. A reply that carries an \<^verbatim>\<open>error\<close> field and no \<^verbatim>\<open>result\<close> field makes the
  attempt fail, and nothing of it is printed as a result. As the reply to
  \<^verbatim>\<open>objects/list\<close> it ends the attempt of the blocking client with the warning of a
  failed API request, and that of the cooperative client with the error line that shows
  the value of the field; as the reply to the status query it ends the attempt of the
  blocking client with the error line of a failed status query. No exception \<^verbatim>\<open>RpcError\<close>
  exists: the attempt ends without a return, and the sleep and the next attempt follow.
\<close>

theorem error_without_result_fails:
  "(connect_error senv = None \<and> write_result (sendall_errors senv) 0 = Inr ()
      \<and> fst (receive_response_sync (recv_script senv)) = Inr s
      \<and> json_loads rt s = Some (JObj kvs)
      \<and> map_of kvs ''error'' = Some err \<and> ''result'' \<notin> set (map fst kvs) \<longrightarrow>
        attempt_sync rt key uds n senv i
        = ([attempting uds n i, Connect uds, Log DEBUG ''Connected to Unix Domain Socket'' [],
            Send list_request, Log DEBUG ''Sent JSON-RPC request for objects/list'' [],
            Log DEBUG ''Received response: {response}'' [AStr s],
            Log WARNING ''API request failed. Retrying...'' []], Inr False))
   \<and> (connect_error senv = None \<and> write_result (sendall_errors senv) 0 = Inr ()
      \<and> write_result (sendall_errors senv) 1 = Inr ()
      \<and> receive_response_sync (recv_script senv) = (Inr s1, rs1)
      \<and> json_loads rt s1 = Some (JObj kvs1)
      \<and> map_of kvs1 ''result'' = Some (JObj rkvs) \<and> map_of rkvs ''objects'' = Some objects
      \<and> fst (receive_response_sync rs1) = Inr s2
      \<and> json_loads rt s2 = Some (JObj kvs2)
      \<and> map_of kvs2 ''error'' = Some err \<and> ''result'' \<notin> set (map fst kvs2) \<longrightarrow>
        attempt_sync rt key uds n senv i
        = ([attempting uds n i, Connect uds, Log DEBUG ''Connected to Unix Domain Socket'' [],
            Send list_request, Log DEBUG ''Sent JSON-RPC request for objects/list'' [],
            Log DEBUG ''Received response: {response}'' [AStr s1],
            Log DEBUG ''API request succeeded'' [],
            Print ''Available objects: {objects}'' [AJson objects],
            Send (query_request key),
            Log DEBUG ''Sent JSON-RPC request for toolhead and print_stats'' [],
            Log DEBUG ''Received response: {response}'' [AStr s2],
            Log ERROR ''Error: Failed to retrieve printer status.'' []], Inr False))
   \<and> (open_error aenv = None \<and> write_result (drain_errors aenv) 0 = Inr ()
      \<and> receive_response_async (read_script aenv) = (evs, Inr (s', rs1'))
      \<and> s' \<noteq> [] \<and> json_loads rt s' = Some (JObj kvs')
      \<and> map_of kvs' ''error'' = Some err' \<and> ''result'' \<notin> set (map fst kvs') \<longrightarrow>
        attempt_async rt uds n fuel aenv i
        = ([attempting uds n i, Connect uds, Log DEBUG ''Connected to Unix Domain Socket'' [],
            Send list_request] @ evs @
           [Log DEBUG ''Received response: {response}'' [AStr s'],
            Log DEBUG ''Parsed response: {data}'' [AJson (JObj kvs')],
            Log ERROR ''Error in objects/list: {data.get('error', 'Unknown error')}'' [AJson err']],
           Inr Done))"
proof -
  have a: "connect_error senv = None \<and> write_result (sendall_errors senv) 0 = Inr ()
      \<and> fst (receive_response_sync (recv_script senv)) = Inr s
      \<and> json_loads rt s = Some (JObj kvs)
      \<and> map_of kvs ''error'' = Some err \<and> ''result'' \<notin> set (map fst kvs) \<longrightarrow>
        attempt_sync rt key uds n senv i
        = ([attempting uds n i, Connect uds, Log DEBUG ''Connected to Unix Domain Socket'' [],
            Send list_request, Log DEBUG ''Sent JSON-RPC request for objects/list'' [],
            Log DEBUG ''Received response: {response}'' [AStr s],
            Log WARNING ''API request failed. Retrying...'' []], Inr False)"
    by (intro impI, elim conjE, rule attempt_sync_object_without_result)
  have b: "connect_error senv = None \<and> write_result (sendall_errors senv) 0 = Inr ()
      \<and> write_result (sendall_errors senv) 1 = Inr ()
      \<and> receive_response_sync (recv_script senv) = (Inr s1, rs1)
      \<and> json_loads rt s1 = Some (JObj kvs1)
      \<and> map_of kvs1 ''result'' = Some (JObj rkvs) \<and> map_of rkvs ''objects'' = Some objects
      \<and> fst (receive_response_sync rs1) = Inr s2
      \<and> json_loads rt s2 = Some (JObj kvs2)
      \<and> map_of kvs2 ''error'' = Some err \<and> ''result'' \<notin> set (map fst kvs2) \<longrightarrow>
        attempt_sync rt key uds n senv i
        = ([attempting uds n i, Connect uds, Log DEBUG ''Connected to Unix Domain Socket'' [],
            Send list_request, Log DEBUG ''Sent JSON-RPC request for objects/list'' [],
            Log DEBUG ''Received response: {response}'' [AStr s1],
            Log DEBUG ''API request succeeded'' [],
            Print ''Available objects: {objects}'' [AJson objects],
            Send (query_request key),
            Log DEBUG ''Sent JSON-RPC request for toolhead and print_stats'' [],
            Log DEBUG ''Received response: {response}'' [AStr s2],
            Log ERROR ''Error: Failed to retrieve printer status.'' []], Inr False)"
    by (intro impI, elim conjE, rule attempt_sync_query_without_result)
  have c: "open_error aenv = None \<and> write_result (drain_errors aenv) 0 = Inr ()
      \<and> receive_response_async (read_script aenv) = (evs, Inr (s', rs1'))
      \<and> s' \<noteq> [] \<and> json_loads rt s' = Some (JObj kvs')
      \<and> map_of kvs' ''error'' = Some err' \<and> ''result'' \<notin> set (map fst kvs') \<longrightarrow>
        attempt_async rt uds n fuel aenv i
        = ([attempting uds n i, Connect uds, Log DEBUG ''Connected to Unix Domain Socket'' [],
            Send list_request] @ evs @
           [Log DEBUG ''Received response: {response}'' [AStr s'],
            Log DEBUG ''Parsed response: {data}'' [AJson (JObj kvs')],
            Log ERROR ''Error in objects/list: {data.get('error', 'Unknown error')}'' [AJson err']],
           Inr Done)"
    using attempt_async_object_without_result [of aenv evs s' rs1' rt kvs' uds n fuel i]
    by auto
  show ?thesis
    using a b c by (intro conjI)
qed

theorem error_without_result_fails_witness:
  "attempt_sync example_rt None ''/tmp/klippy_uds'' 3 error_list_sock 0
     = ([attempting ''/tmp/klippy_uds'' 3 0, Connect ''/tmp/klippy_uds'',
         Log DEBUG ''Connected to Unix Domain Socket'' [],
         Send list_request, Log DEBUG ''Sent JSON-RPC request for objects/list'' [],
         Log DEBUG ''Received response: {response}'' [AStr error_list_text],
         Log WARNING ''API request failed. Retrying...'' []], Inr False)
   \<and> attempt_sync example_rt None ''/tmp/klippy_uds'' 3 error_only_sock 0
     = ([attempting ''/tmp/klippy_uds'' 3 0, Connect ''/tmp/klippy_uds'',
         Log DEBUG ''Connected to Unix Domain Socket'' [],
         Send list_request, Log DEBUG ''Sent JSON-RPC request for objects/list'' [],
         Log DEBUG ''Received response: {response}'' [AStr list_reply_text],
         Log DEBUG ''API request succeeded'' [],
         Print ''Available objects: {objects}'' [AJson (JArr [JStr ''toolhead'', JStr ''print_stats''])],
         Send (query_request None),
         Log DEBUG ''Sent JSON-RPC request for toolhead and print_stats'' [],
         Log DEBUG ''Received response: {response}'' [AStr error_reply_text],
         Log ERROR ''Error: Failed to retrieve printer status.'' []], Inr False)
   \<and> attempt_async example_rt ''/tmp/klippy_uds'' 3 5 error_list_stream 0
     = ([attempting ''/tmp/klippy_uds'' 3 0, Connect ''/tmp/klippy_uds'',
         Log DEBUG ''Connected to Unix Domain Socket'' [],
         Send list_request,
         Log DEBUG ''Received response: {response}'' [AStr error_list_text],
         Log DEBUG ''Parsed response: {data}'' [AJson error_list],
         Log ERROR ''Error in objects/list: {data.get('error', 'Unknown error')}''
           [AJson (JObj [(''message'', JStr ''x'')])]],
        Inr Done)"
proof -
  have a: "connect_error error_list_sock = None
      \<and> write_result (sendall_errors error_list_sock) 0 = Inr ()
      \<and> fst (receive_response_sync (recv_script error_list_sock)) = Inr error_list_text
      \<and> json_loads example_rt error_list_text
          = Some (JObj [(''id'', JInt 123), (''error'', JObj [(''message'', JStr ''x'')])])
      \<and> map_of [(''id'', JInt 123), (''error'', JObj [(''message'', JStr ''x'')])] ''error''
          = Some (JObj [(''message'', JStr ''x'')])
      \<and> ''result'' \<notin> set (map fst [(''id'', JInt 123), (''error'', JObj [(''message'', JStr ''x'')])])"
    by code_simp
  have b: "connect_error error_only_sock = None
      \<and> write_result (sendall_errors error_only_sock) 0 = Inr ()
      \<and> write_result (sendall_errors error_only_sock) 1 = Inr ()
      \<and> receive_response_sync (recv_script error_only_sock)
          = (Inr list_reply_text, [Data (error_reply_text @ [ETX]), RecvError Timeout])
      \<and> json_loads example_rt list_reply_text
          = Some (JObj [(''id'', JInt 123),
               (''result'', JObj [(''objects'', JArr [JStr ''toolhead'', JStr ''print_stats''])])])
      \<and> map_of [(''id'', JInt 123),
               (''result'', JObj [(''objects'', JArr [JStr ''toolhead'', JStr ''print_stats''])])]
            ''result''
          = Some (JObj [(''objects'', JArr [JStr ''toolhead'', JStr ''print_stats''])])
      \<and> map_of [(''objects'', JArr [JStr ''toolhead'', JStr ''print_stats''])] ''objects''
          = Some (JArr [JStr ''toolhead'', JStr ''print_stats''])
      \<and> fst (receive_response_sync [Data (error_reply_text @ [ETX]), RecvError Timeout])
          = Inr error_reply_text
      \<and> json_loads example_rt error_reply_text
          = Some (JObj [(''id'', JInt 1), (''error'', JObj [(''message'', JStr ''x'')])])
      \<and> map_of [(''id'', JInt 1), (''error'', JObj [(''message'', JStr ''x'')])] ''error''
          = Some (JObj [(''message'', JStr ''x'')])
      \<and> ''result'' \<notin> set (map fst [(''id'', JInt 1), (''error'', JObj [(''message'', JStr ''x'')])])"
    by code_simp
  have c: "open_error error_list_stream = None
      \<and> write_result (drain_errors error_list_stream) 0 = Inr ()
      \<and> receive_response_async (read_script error_list_stream) = ([], Inr (error_list_text, []))
      \<and> error_list_text \<noteq> []
      \<and> json_loads example_rt error_list_text
          = Some (JObj [(''id'', JInt 123), (''error'', JObj [(''message'', JStr ''x'')])])"
    by code_simp
  have 1: "attempt_sync example_rt None ''/tmp/klippy_uds'' 3 error_list_sock 0
     = ([attempting ''/tmp/klippy_uds'' 3 0, Connect ''/tmp/klippy_uds'',
         Log DEBUG ''Connected to Unix Domain Socket'' [],
         Send list_request, Log DEBUG ''Sent JSON-RPC request for objects/list'' [],
         Log DEBUG ''Received response: {response}'' [AStr error_list_text],
         Log WARNING ''API request failed. Retrying...'' []], Inr False)"
    using error_without_result_fails [THEN conjunct1, rule_format, where senv = error_list_sock
        and rt = example_rt and s = error_list_text and key = None and n = 3 and i = 0
        and uds = "''/tmp/klippy_uds''"] a
    by blast
  have 2: "attempt_sync example_rt None ''/tmp/klippy_uds'' 3 error_only_sock 0
     = ([attempting ''/tmp/klippy_uds'' 3 0, Connect ''/tmp/klippy_uds'',
         Log DEBUG ''Connected to Unix Domain Socket'' [],
         Send list_request, Log DEBUG ''Sent JSON-RPC request for objects/list'' [],
         Log DEBUG ''Received response: {response}'' [AStr list_reply_text],
         Log DEBUG ''API request succeeded'' [],
         Print ''Available objects: {objects}'' [AJson (JArr [JStr ''toolhead'', JStr ''print_stats''])],
         Send (query_request None),
         Log DEBUG ''Sent JSON-RPC request for toolhead and print_stats'' [],
         Log DEBUG ''Received response: {response}'' [AStr error_reply_text],
         Log ERROR ''Error: Failed to retrieve printer status.'' []], Inr False)"
    using error_without_result_fails [THEN conjunct2, THEN conjunct1, rule_format,
        where senv = error_only_sock and rt = example_rt and key = None and n = 3 and i = 0
        and uds = "''/tmp/klippy_uds''" and ?s1.0 = list_reply_text
        and ?s2.0 = error_reply_text] b
    by blast
  have 3: "attempt_async example_rt ''/tmp/klippy_uds'' 3 5 error_list_stream 0
     = ([attempting ''/tmp/klippy_uds'' 3 0, Connect ''/tmp/klippy_uds'',
         Log DEBUG ''Connected to Unix Domain Socket'' [],
         Send list_request] @ [] @
         [Log DEBUG ''Received response: {response}'' [AStr error_list_text],
         Log DEBUG ''Parsed response: {data}''
           [AJson (JObj [(''id'', JInt 123), (''error'', JObj [(''message'', JStr ''x'')])])],
         Log ERROR ''Error in objects/list: {data.get('error', 'Unknown error')}''
           [AJson (JObj [(''message'', JStr ''x'')])]],
        Inr Done)"
    using error_without_result_fails [THEN conjunct2, THEN conjunct2, rule_format,
        where aenv = error_list_stream and rt = example_rt and n = 3 and i = 0 and fuel = 5
        and uds = "''/tmp/klippy_uds''" and s' = error_list_text and evs = "[]"
        and kvs' = "[(''id'', JInt 123), (''error'', JObj [(''message'', JStr ''x'')])]"
        and err' = "JObj [(''message'', JStr ''x'')]"] c
    by simp
  show ?thesis
    using 1 2 3 by (simp add: error_list_def)
qed

subsection \<open>C6: what a retry repeats\<close>

text \<open>
  C6 does not hold as stated. In a run whose three attempts all fail (the peer closes
  without a reply), the endpoint is resolved once and the socket is connected three
  times: a retry starts at the connection, not at endpoint resolution.
\<close>

theorem resolution_not_repeated:
  "count_list (fst (get_printer_status_sync example_rt example_res closing_socks)) resolution_done = 1
   \<and> connects (fst (get_printer_status_sync example_rt example_res closing_socks))
     = [''/tmp/klippy_uds'', ''/tmp/klippy_uds'', ''/tmp/klippy_uds'']
   \<and> count_list (fst (get_printer_status_async example_rt example_res 7 closing_streams)) resolution_done = 1
   \<and> connects (fst (get_printer_status_async example_rt example_res 7 closing_streams))
     = [''/tmp/klippy_uds'', ''/tmp/klippy_uds'', ''/tmp/klippy_uds'']"
  by code_simp

text \<open>
  C6, amended. When each of the three attempts fails, at whatever stage (for the
  cooperative client: ends, at whatever stage), the run is: the endpoint is resolved,
  once; then three times the socket path found there is connected and two seconds are
  slept; then the final failure message is logged and the function returns. No exception
  \<^verbatim>\<open>HandshakeFailed\<close> exists: the failure is that last error line.
\<close>

theorem retry_from_connect:
  assumes "klipper_uds res = Some uds"
    and "\<forall>i<3. snd (attempt_sync rt (klipper_api_key res) uds 3 (senvs i) i) = Inr False"
    and "\<forall>i<3. snd (attempt_async rt uds 3 fuel (aenvs i) i) = Inr Done"
  shows "landmarks 2 (fst (get_printer_status_sync rt res senvs))
           = [resolution_done, Connect uds, Sleep 2, Connect uds, Sleep 2, Connect uds, Sleep 2,
              failed_msg]
         \<and> snd (get_printer_status_sync rt res senvs) = Return
         \<and> landmarks 2 (fst (get_printer_status_async rt res fuel aenvs))
           = [resolution_done, Connect uds, Sleep 2, Connect uds, Sleep 2, Connect uds, Sleep 2,
              failed_msg]
         \<and> snd (get_printer_status_async rt res fuel aenvs) = Return"
proof -
  have s: "\<forall>i\<in>set [0..<3]. snd (attempt_sync rt (klipper_api_key res) uds 3 (senvs i) i) = Inr False"
    using assms(2) by simp
  have a: "\<forall>i\<in>set [0..<3]. snd (attempt_async rt uds 3 fuel (aenvs i) i) = Inr Done"
    using assms(3) by simp
  show ?thesis
    using attempts_sync_fail [OF s, of 2] attempts_async_done [OF a, of 2]
    by (simp add: get_printer_status_sync_Some [OF assms(1)]
        get_printer_status_async_Some [OF assms(1)] landmarks_append landmarks_found_sync
        landmarks_found_async landmarks_systemd landmarks_passes_sync landmarks_passes_async
        landmarks_failed concat_replicate_3)
qed

theorem retry_from_connect_witness:
  "landmarks 2 (fst (get_printer_status_sync example_rt example_res closing_socks))
     = [resolution_done, Connect ''/tmp/klippy_uds'', Sleep 2, Connect ''/tmp/klippy_uds'',
        Sleep 2, Connect ''/tmp/klippy_uds'', Sleep 2, failed_msg]
   \<and> snd (get_printer_status_sync example_rt example_res closing_socks) = Return
   \<and> landmarks 2 (fst (get_printer_status_async example_rt example_res 7 closing_streams))
     = [resolution_done, Connect ''/tmp/klippy_uds'', Sleep 2, Connect ''/tmp/klippy_uds'',
        Sleep 2, Connect ''/tmp/klippy_uds'', Sleep 2, failed_msg]
   \<and> snd (get_printer_status_async example_rt example_res 7 closing_streams) = Return"
  using retry_from_connect [of example_res "''/tmp/klippy_uds''" example_rt closing_socks 7
      closing_streams]
  by (simp add: example_res_def attempt_sync_closing attempt_async_closing)

subsection \<open>C7: the first request\<close>

text \<open>
  C7. On every connection that is opened, the first request either client hands to the
  socket is the list request: method \<^verbatim>\<open>objects/list\<close>, id 123. When the reply to it
  decodes to a value that is no object with a \<^verbatim>\<open>result\<close> key, the list request is the
  only request of the attempt (no status query, no subscription), the attempt ends
  without a return, and the attempt loop sleeps and goes on with the attempts that are
  left.
\<close>

theorem list_first_and_result_required:
  "(connect_error (senvs i) = None \<longrightarrow>
      (\<exists>others. sends (fst (attempt_sync rt key uds n (senvs i) i)) = list_request # others))
   \<and> (open_error (aenvs i) = None \<longrightarrow>
      (\<exists>others. sends (fst (attempt_async rt uds n fuel (aenvs i) i)) = list_request # others))
   \<and> py_getitem list_request ''method'' = Inr (JStr ''objects/list'')
   \<and> py_getitem list_request ''id'' = Inr (JInt 123)
   \<and> (connect_error (senvs i) = None \<and> write_result (sendall_errors (senvs i)) 0 = Inr ()
      \<and> fst (receive_response_sync (recv_script (senvs i))) = Inr s
      \<and> json_loads rt s = Some data \<and> no_result data \<longrightarrow>
        sends (fst (attempt_sync rt key uds n (senvs i) i)) = [list_request]
        \<and> attempts_sync rt key uds n d senvs (i # is)
          = (fst (attempt_sync rt key uds n (senvs i) i) @ Sleep d
               # fst (attempts_sync rt key uds n d senvs is),
             snd (attempts_sync rt key uds n d senvs is)))
   \<and> (open_error (aenvs i) = None \<and> write_result (drain_errors (aenvs i)) 0 = Inr ()
      \<and> snd (receive_response_async (read_script (aenvs i))) = Inr (s', rs1)
      \<and> json_loads rt s' = Some data' \<and> no_result data' \<longrightarrow>
        sends (fst (attempt_async rt uds n fuel (aenvs i) i)) = [list_request]
        \<and> attempts_async rt uds n d fuel aenvs (i # is)
          = (fst (attempt_async rt uds n fuel (aenvs i) i) @ Sleep d
               # fst (attempts_async rt uds n d fuel aenvs is),
             snd (attempts_async rt uds n d fuel aenvs is)))"
proof -
  have 1: "connect_error (senvs i) = None \<longrightarrow>
      (\<exists>others. sends (fst (attempt_sync rt key uds n (senvs i) i)) = list_request # others)"
    by (simp add: sends_attempt_sync)
  have 2: "open_error (aenvs i) = None \<longrightarrow>
      (\<exists>others. sends (fst (attempt_async rt uds n fuel (aenvs i) i)) = list_request # others)"
    using sends_attempt_async [of rt uds n fuel "aenvs i" i] by auto
  have 3: "py_getitem list_request ''method'' = Inr (JStr ''objects/list'')
      \<and> py_getitem list_request ''id'' = Inr (JInt 123)"
    by (simp add: py_getitem_def list_request_def)
  have 4: "connect_error (senvs i) = None \<and> write_result (sendall_errors (senvs i)) 0 = Inr ()
      \<and> fst (receive_response_sync (recv_script (senvs i))) = Inr s
      \<and> json_loads rt s = Some data \<and> no_result data \<longrightarrow>
        sends (fst (attempt_sync rt key uds n (senvs i) i)) = [list_request]
        \<and> attempts_sync rt key uds n d senvs (i # is)
          = (fst (attempt_sync rt key uds n (senvs i) i) @ Sleep d
               # fst (attempts_sync rt key uds n d senvs is),
             snd (attempts_sync rt key uds n d senvs is))"
    by (intro impI conjI attempts_sync_Cons_fail)
       (elim conjE, rule attempt_sync_no_result, assumption+)+
  have 5: "open_error (aenvs i) = None \<and> write_result (drain_errors (aenvs i)) 0 = Inr ()
      \<and> snd (receive_response_async (read_script (aenvs i))) = Inr (s', rs1)
      \<and> json_loads rt s' = Some data' \<and> no_result data' \<longrightarrow>
        sends (fst (attempt_async rt uds n fuel (aenvs i) i)) = [list_request]
        \<and> attempts_async rt uds n d fuel aenvs (i # is)
          = (fst (attempt_async rt uds n fuel (aenvs i) i) @ Sleep d
               # fst (attempts_async rt uds n d fuel aenvs is),
             snd (attempts_async rt uds n d fuel aenvs is))"
    by (intro impI conjI attempts_async_Cons_done)
       (elim conjE, rule attempt_async_no_result, assumption+)+
  show ?thesis
    using 1 2 3 4 5 by (intro conjI) (elim conjE, assumption)+
qed

theorem list_first_and_result_required_witness:
  "sends (fst (attempt_sync example_rt None ''/tmp/klippy_uds'' 3 (notified_socks 0) 0))
     = [list_request]
   \<and> attempts_sync example_rt None ''/tmp/klippy_uds'' 3 2 notified_socks [0]
     = (fst (attempt_sync example_rt None ''/tmp/klippy_uds'' 3 (notified_socks 0) 0)
          @ [Sleep 2, failed_msg], Return)
   \<and> sends (fst (attempt_async example_rt ''/tmp/klippy_uds'' 3 5 (notifying_streams 0) 0))
     = [list_request]
   \<and> attempts_async example_rt ''/tmp/klippy_uds'' 3 2 5 notifying_streams [0]
     = (fst (attempt_async example_rt ''/tmp/klippy_uds'' 3 5 (notifying_streams 0) 0)
          @ [Sleep 2, failed_msg], Return)"
proof -
  have a: "connect_error (notified_socks 0) = None
      \<and> write_result (sendall_errors (notified_socks 0)) 0 = Inr ()
      \<and> fst (receive_response_sync (recv_script (notified_socks 0))) = Inr notification_text
      \<and> json_loads example_rt notification_text = Some notification \<and> no_result notification"
    by code_simp
  have b: "open_error (notifying_streams 0) = None
      \<and> write_result (drain_errors (notifying_streams 0)) 0 = Inr ()
      \<and> snd (receive_response_async (read_script (notifying_streams 0)))
          = Inr (notification_text, [Chunk (list_reply_text @ [ETX])])
      \<and> json_loads example_rt notification_text = Some notification \<and> no_result notification"
    by code_simp
  show ?thesis
    using list_first_and_result_required [of notified_socks 0 example_rt None "''/tmp/klippy_uds''" 3
        notifying_streams 5 notification_text notification 2 "[]" notification_text
        "[Chunk (list_reply_text @ [ETX])]" notification] a b
    by simp
qed

subsection \<open>C8: the API key in the status query\<close>

text \<open>
  C8. The status query has an \<^verbatim>\<open>api_key\<close> field exactly when the key is present
  (\<^verbatim>\<open>if klipper_api_key\<close>: neither \<^verbatim>\<open>None\<close> nor empty), and then the field holds the key;
  without a key the field is missing, not null, so the two bodies differ. The list
  request never has the field, and these two are all the requests an attempt of the
  blocking client sends.
\<close>

theorem api_key_only_if_present:
  "(\<not> truthy key \<longrightarrow> py_contains ''api_key'' (query_request key) = Inr False)
   \<and> (\<forall>k. key = Some k \<and> k \<noteq> [] \<longrightarrow>
      py_contains ''api_key'' (query_request key) = Inr True
      \<and> py_getitem (query_request key) ''api_key'' = Inr (JStr k))
   \<and> (truthy key' \<and> \<not> truthy key \<longrightarrow> query_request key' \<noteq> query_request key)
   \<and> py_contains ''api_key'' list_request = Inr False
   \<and> set (sends (fst (attempt_sync rt key uds n env i))) \<subseteq> {list_request, query_request key}"
proof -
  have a: "(\<not> truthy key \<longrightarrow> py_contains ''api_key'' (query_request key) = Inr False)
      \<and> (\<forall>k. key = Some k \<and> k \<noteq> [] \<longrightarrow>
        py_contains ''api_key'' (query_request key) = Inr True
        \<and> py_getitem (query_request key) ''api_key'' = Inr (JStr k))
      \<and> (truthy key' \<and> \<not> truthy key \<longrightarrow> query_request key' \<noteq> query_request key)"
    by (auto simp: query_request_def truthy_def py_contains_def py_getitem_def
        split: option.splits)
  have b: "py_contains ''api_key'' list_request = Inr False"
    by (simp add: py_contains_def list_request_def)
  have c: "set (sends (fst (attempt_sync rt key uds n env i))) \<subseteq> {list_request, query_request key}"
    using sends_exchange_sync [of rt key env]
    by (auto simp: sends_attempt_sync split: sum.splits)
  show ?thesis
    using a b c by blast
qed

theorem api_key_only_if_present_witness:
  "\<not> truthy None \<and> truthy (Some ''secret'')
   \<and> py_contains ''api_key'' (query_request None) = Inr False
   \<and> py_contains ''api_key'' (query_request (Some ''secret'')) = Inr True
   \<and> py_getitem (query_request (Some ''secret'')) ''api_key'' = Inr (JStr ''secret'')
   \<and> query_request (Some ''secret'') \<noteq> query_request None"
  using api_key_only_if_present [of None "Some ''secret''"]
    api_key_only_if_present [of "Some ''secret''" None]
  by (simp add: truthy_def)

subsection \<open>C9: a status without a position\<close>

text \<open>
  C9. When the status is a mapping with no \<^verbatim>\<open>toolhead\<close>, or with a \<^verbatim>\<open>toolhead\<close> mapping
  that has no \<^verbatim>\<open>position\<close>, \<^verbatim>\<open>print_printer_status\<close> raises nothing and prints the line of
  the default position, each coordinate with two decimals.
\<close>

theorem print_printer_status_default:
  assumes "status = JObj kvs"
    and "map_of kvs ''toolhead'' = None
         \<or> (\<exists>tkvs. map_of kvs ''toolhead'' = Some (JObj tkvs) \<and> map_of tkvs ''position'' = None)"
  shows "print_printer_status rt status
         = ([Print ''Toolhead Position: X=0.00, Y=0.00, Z=0.00'' []], Inr ())"
  using assms
  by (auto simp: print_printer_status_def py_get_def seq_pure coordinate_default emit_def)

theorem print_printer_status_default_witness:
  "print_printer_status example_rt (JObj [(''print_stats'', JObj [(''state'', JStr ''printing'')])])
     = ([Print ''Toolhead Position: X=0.00, Y=0.00, Z=0.00'' []], Inr ())
   \<and> print_printer_status example_rt (JObj [(''toolhead'', JObj [(''homed_axes'', JStr ''xyz'')])])
     = ([Print ''Toolhead Position: X=0.00, Y=0.00, Z=0.00'' []], Inr ())"
  using print_printer_status_default
      [of "JObj [(''print_stats'', JObj [(''state'', JStr ''printing'')])]"
          "[(''print_stats'', JObj [(''state'', JStr ''printing'')])]" example_rt]
    print_printer_status_default
      [of "JObj [(''toolhead'', JObj [(''homed_axes'', JStr ''xyz'')])]"
          "[(''toolhead'', JObj [(''homed_axes'', JStr ''xyz'')])]" example_rt]
  by simp

subsection \<open>C10: no early exit from the attempt loop\<close>



end
